theory Spec2Isabelle
  imports Complex_Main
begin

section \<open>Numbers, errors and shared helpers\<close>

text \<open>
  A TypeScript \<^verbatim>\<open>number\<close> is an IEEE double. Finite doubles are idealised as real
  numbers: arithmetic on them is exact, without rounding, overflow or underflow. The three
  non-finite doubles are kept as values of their own wherever they can reach the code:
  embeddings and causal-uplift feature vectors (tested with \<^verbatim>\<open>Number.isFinite\<close>), the
  RBS weights (\<^verbatim>\<open>parseFloat\<close> of an environment variable) and the pagination
  parameters (\<^verbatim>\<open>parseInt\<close> of a query parameter).
\<close>

datatype number = Fin real | NaN | PosInfinity | NegInfinity

fun isFinite :: "number \<Rightarrow> bool" where
  "isFinite (Fin _) = True"
| "isFinite _ = False"

text \<open>The real value of a double that has passed \<open>isFinite\<close> (only used after that test).\<close>

fun finVal :: "number \<Rightarrow> real" where
  "finVal (Fin r) = r"
| "finVal _ = 0"

text \<open>
  Arithmetic and comparison of doubles with the non-finite values: \<^verbatim>\<open>NaN\<close> propagates
  through every operation and makes every comparison false; the infinities follow
  IEEE 754. \<open>num_sign\<close> is the sign of a double that is not \<^verbatim>\<open>NaN\<close>.
\<close>

fun num_neg :: "number \<Rightarrow> number" where
  "num_neg (Fin a) = Fin (- a)"
| "num_neg NaN = NaN"
| "num_neg PosInfinity = NegInfinity"
| "num_neg NegInfinity = PosInfinity"

fun num_add :: "number \<Rightarrow> number \<Rightarrow> number" where
  "num_add NaN y = NaN"
| "num_add x NaN = NaN"
| "num_add (Fin a) (Fin b) = Fin (a + b)"
| "num_add PosInfinity NegInfinity = NaN"
| "num_add NegInfinity PosInfinity = NaN"
| "num_add PosInfinity y = PosInfinity"
| "num_add x PosInfinity = PosInfinity"
| "num_add NegInfinity y = NegInfinity"
| "num_add x NegInfinity = NegInfinity"

definition num_sub :: "number \<Rightarrow> number \<Rightarrow> number" where
  "num_sub x y = num_add x (num_neg y)"

fun num_sign :: "number \<Rightarrow> real" where
  "num_sign (Fin a) = sgn a"
| "num_sign PosInfinity = 1"
| "num_sign NegInfinity = - 1"
| "num_sign NaN = 0"

fun num_mul :: "number \<Rightarrow> number \<Rightarrow> number" where
  "num_mul NaN y = NaN"
| "num_mul x NaN = NaN"
| "num_mul (Fin a) (Fin b) = Fin (a * b)"
| "num_mul x y =
    (if num_sign x * num_sign y = 0 then NaN
     else if num_sign x * num_sign y > 0 then PosInfinity
     else NegInfinity)"

fun num_abs :: "number \<Rightarrow> number" where
  "num_abs (Fin a) = Fin \<bar>a\<bar>"
| "num_abs NaN = NaN"
| "num_abs PosInfinity = PosInfinity"
| "num_abs NegInfinity = PosInfinity"

text \<open>\<^verbatim>\<open>x < y\<close>, \<^verbatim>\<open>x <= y\<close>, \<^verbatim>\<open>x > y\<close> and \<^verbatim>\<open>x >= y\<close> on doubles.\<close>

fun num_lt :: "number \<Rightarrow> number \<Rightarrow> bool" where
  "num_lt NaN y = False"
| "num_lt x NaN = False"
| "num_lt (Fin a) (Fin b) = (a < b)"
| "num_lt x NegInfinity = False"
| "num_lt PosInfinity y = False"
| "num_lt NegInfinity y = True"
| "num_lt x PosInfinity = True"

fun num_le :: "number \<Rightarrow> number \<Rightarrow> bool" where
  "num_le NaN y = False"
| "num_le x NaN = False"
| "num_le (Fin a) (Fin b) = (a \<le> b)"
| "num_le NegInfinity y = True"
| "num_le x PosInfinity = True"
| "num_le x NegInfinity = False"
| "num_le PosInfinity y = False"

definition num_gt :: "number \<Rightarrow> number \<Rightarrow> bool" where
  "num_gt x y = num_lt y x"

definition num_ge :: "number \<Rightarrow> number \<Rightarrow> bool" where
  "num_ge x y = num_le y x"

text \<open>\<^verbatim>\<open>Math.max\<close> and \<^verbatim>\<open>Math.min\<close> of two doubles: \<^verbatim>\<open>NaN\<close> when either is.\<close>

fun math_max :: "number \<Rightarrow> number \<Rightarrow> number" where
  "math_max NaN y = NaN"
| "math_max x NaN = NaN"
| "math_max x y = (if num_lt x y then y else x)"

fun math_min :: "number \<Rightarrow> number \<Rightarrow> number" where
  "math_min NaN y = NaN"
| "math_min x NaN = NaN"
| "math_min x y = (if num_lt y x then y else x)"

text \<open>Every exception of the modelled code, with the values its message prints: the
  \<^verbatim>\<open>throw new Error(...)\<close> statements, the \<^verbatim>\<open>TypeError\<close> of calling a method an object
  does not have, and the refusal of the database client to create a row without a required
  argument.\<close>

datatype error =
    InvalidEmbedding1Size nat nat
  | InvalidEmbedding2Size nat nat
  | Embedding1InvalidValues
  | Embedding2InvalidValues
  | VectorLengthMismatch nat nat
  | InvalidSubspaceBounds nat nat
  | InvalidSubspaceRange nat nat
  | SubspaceWeightsSum real
  | InvalidFeatureCount nat nat
  | InvalidFeatureValue nat number
  | WeightsMustSumToOne number number number number
  | DeltaOutOfRange number
  | WeightsMustBePositive
  | MatchAlreadyExists
  | MissingArgument string
  | VectorSizeMismatch nat nat
  | TypeError string

text \<open>\<^verbatim>\<open>clamp(value, min, max) = Math.max(min, Math.min(max, value))\<close>, the same private
  method in all five services.\<close>

definition clamp :: "real \<Rightarrow> real \<Rightarrow> real \<Rightarrow> real" where
  "clamp v lo hi = max lo (min hi v)"

text \<open>The same method where its argument may be non-finite (the RBS total).\<close>

definition num_clamp :: "number \<Rightarrow> number \<Rightarrow> number \<Rightarrow> number" where
  "num_clamp v lo hi = math_max lo (math_min hi v)"

text \<open>\<^verbatim>\<open>Array.prototype.slice(start, end)\<close> for non-negative integer bounds.\<close>

definition slice :: "'a list \<Rightarrow> nat \<Rightarrow> nat \<Rightarrow> 'a list" where
  "slice xs s e = take (e - s) (drop s xs)"

section \<open>Configuration (src/config/index.ts)\<close>

datatype SubspaceName = SValues | SInterests | SCommunication | SLifestyle | SGoals

record Subspace =
  name :: SubspaceName
  start :: nat
  end' :: nat
  weight :: real

definition config_subspaces :: "Subspace list" where
  "config_subspaces =
    [\<lparr>name = SValues, start = 0, end' = 128, weight = 30 / 100\<rparr>,
     \<lparr>name = SInterests, start = 128, end' = 384, weight = 25 / 100\<rparr>,
     \<lparr>name = SCommunication, start = 384, end' = 448, weight = 20 / 100\<rparr>,
     \<lparr>name = SLifestyle, start = 448, end' = 544, weight = 15 / 100\<rparr>,
     \<lparr>name = SGoals, start = 544, end' = 624, weight = 10 / 100\<rparr>]"

definition config_vectorSize :: nat where
  "config_vectorSize = 768"

text \<open>
  \<^verbatim>\<open>config.rbs.weights\<close>: each weight is \<^verbatim>\<open>parseFloat\<close> of an environment variable,
  so it is any double, \<^verbatim>\<open>NaN\<close> for a value that does not parse. The orchestrator below
  takes its weights as a parameter; \<open>config_default_weights\<close> are the defaults.
\<close>

record RBSWeights =
  alpha :: number
  beta :: number
  gamma :: number
  delta :: number

definition config_default_weights :: RBSWeights where
  "config_default_weights =
    \<lparr>alpha = Fin (45 / 100), beta = Fin (30 / 100), gamma = Fin (25 / 100), delta = Fin (15 / 100)\<rparr>"

section \<open>SubspaceResonanceService\<close>

text \<open>The single-pass loop of \<^verbatim>\<open>cosineSimilarity\<close>: dot product and the two squared
  magnitudes, accumulated index by index.\<close>

fun cosineLoop :: "real list \<Rightarrow> real list \<Rightarrow> real \<times> real \<times> real \<Rightarrow> real \<times> real \<times> real" where
  "cosineLoop (x # xs) (y # ys) (d, m1, m2) = cosineLoop xs ys (d + x * y, m1 + x * x, m2 + y * y)"
| "cosineLoop _ _ acc = acc"

definition SR_cosineSimilarity :: "real list \<Rightarrow> real list \<Rightarrow> error + real" where
  "SR_cosineSimilarity v1 v2 =
    (if length v1 \<noteq> length v2 then Inl (VectorLengthMismatch (length v1) (length v2))
     else
       (case cosineLoop v1 v2 (0, 0, 0) of
          (dotProduct, magnitude1, magnitude2) \<Rightarrow>
            (if sqrt magnitude1 = 0 \<or> sqrt magnitude2 = 0 then Inr 0
             else Inr (dotProduct / (sqrt magnitude1 * sqrt magnitude2)))))"

definition extractSubspace :: "real list \<Rightarrow> Subspace \<Rightarrow> real list" where
  "extractSubspace embedding sub = slice embedding (start sub) (end' sub)"

definition isValidVector :: "number list \<Rightarrow> bool" where
  "isValidVector vector = list_all isFinite vector"

definition validateEmbeddings :: "number list \<Rightarrow> number list \<Rightarrow> error + unit" where
  "validateEmbeddings embedding1 embedding2 =
    (if length embedding1 \<noteq> config_vectorSize
       then Inl (InvalidEmbedding1Size (length embedding1) config_vectorSize)
     else if length embedding2 \<noteq> config_vectorSize
       then Inl (InvalidEmbedding2Size (length embedding2) config_vectorSize)
     else if \<not> isValidVector embedding1 then Inl Embedding1InvalidValues
     else if \<not> isValidVector embedding2 then Inl Embedding2InvalidValues
     else Inr ())"

text \<open>The loop of \<^verbatim>\<open>calculate\<close> over the subspaces; \<open>weightedSum\<close> is the accumulator.\<close>

fun weightedLoop :: "Subspace list \<Rightarrow> real list \<Rightarrow> real list \<Rightarrow> real \<Rightarrow> error + real" where
  "weightedLoop [] e1 e2 weightedSum = Inr weightedSum"
| "weightedLoop (s # ss) e1 e2 weightedSum =
    (case SR_cosineSimilarity (extractSubspace e1 s) (extractSubspace e2 s) of
       Inl err \<Rightarrow> Inl err
     | Inr similarity \<Rightarrow> weightedLoop ss e1 e2 (weightedSum + weight s * similarity))"

definition SR_calculateWith :: "Subspace list \<Rightarrow> number list \<Rightarrow> number list \<Rightarrow> error + real" where
  "SR_calculateWith subspaces embedding1 embedding2 =
    (case validateEmbeddings embedding1 embedding2 of
       Inl err \<Rightarrow> Inl err
     | Inr _ \<Rightarrow>
        (case weightedLoop subspaces (map finVal embedding1) (map finVal embedding2) 0 of
           Inl err \<Rightarrow> Inl err
         | Inr weightedSum \<Rightarrow> Inr (clamp weightedSum 0 1)))"

text \<open>The service reads its subspaces from the configuration in its constructor.\<close>

definition SR_calculate :: "number list \<Rightarrow> number list \<Rightarrow> error + real" where
  "SR_calculate = SR_calculateWith config_subspaces"

text \<open>\<^verbatim>\<open>validateSubspaces\<close>, run by the constructor. The bounds are natural numbers, so its
  test \<^verbatim>\<open>start < 0\<close> never fires and is not written.\<close>

fun validateSubspaceBounds :: "Subspace list \<Rightarrow> error + unit" where
  "validateSubspaceBounds [] = Inr ()"
| "validateSubspaceBounds (s # ss) =
    (if end' s > config_vectorSize then Inl (InvalidSubspaceBounds (start s) (end' s))
     else if start s \<ge> end' s then Inl (InvalidSubspaceRange (start s) (end' s))
     else validateSubspaceBounds ss)"

definition validateSubspaces :: "Subspace list \<Rightarrow> error + unit" where
  "validateSubspaces subspaces =
    (case validateSubspaceBounds subspaces of
       Inl err \<Rightarrow> Inl err
     | Inr _ \<Rightarrow>
        (let totalWeight = foldl (\<lambda>sum s. sum + weight s) 0 subspaces
         in if \<bar>totalWeight - 1\<bar> > 1 / 100 then Inl (SubspaceWeightsSum totalWeight)
            else Inr ()))"

section \<open>CausalUpliftService\<close>

record CausalUpliftInput =
  cu_userId :: string
  cu_partnerId :: string
  features :: "number list"

record CausalUpliftResult =
  treatmentEffect :: real
  confidence :: real
  modelVersion :: string

definition MODEL_VERSION :: string where
  "MODEL_VERSION = ''1.0.0''"

definition FEATURE_COUNT :: nat where
  "FEATURE_COUNT = 20"

definition TREATMENT_WEIGHTS :: "real list" where
  "TREATMENT_WEIGHTS =
    [15 / 100, - (8 / 100), 22 / 100, 11 / 100, - (5 / 100),
     18 / 100, 9 / 100, - (12 / 100), 14 / 100, 7 / 100,
     - (6 / 100), 19 / 100, 13 / 100, - (10 / 100), 16 / 100,
     8 / 100, - (4 / 100), 21 / 100, 12 / 100, - (7 / 100)]"

definition CONTROL_WEIGHTS :: "real list" where
  "CONTROL_WEIGHTS =
    [10 / 100, - (5 / 100), 15 / 100, 8 / 100, - (3 / 100),
     12 / 100, 6 / 100, - (8 / 100), 10 / 100, 5 / 100,
     - (4 / 100), 14 / 100, 9 / 100, - (7 / 100), 11 / 100,
     6 / 100, - (3 / 100), 16 / 100, 9 / 100, - (5 / 100)]"

definition extractFeatures :: "CausalUpliftInput \<Rightarrow> number list" where
  "extractFeatures input =
    (if length (features input) \<ge> FEATURE_COUNT then slice (features input) 0 FEATURE_COUNT
     else features input @ replicate (FEATURE_COUNT - length (features input)) (Fin 0))"

text \<open>The checking loop of \<^verbatim>\<open>validateFeatures\<close>, from index \<open>i\<close> on.\<close>

fun validateFeatureValues :: "nat \<Rightarrow> number list \<Rightarrow> error + unit" where
  "validateFeatureValues i [] = Inr ()"
| "validateFeatureValues i (f # fs) =
    (if \<not> isFinite f then Inl (InvalidFeatureValue i f) else validateFeatureValues (Suc i) fs)"

definition validateFeatures :: "number list \<Rightarrow> error + unit" where
  "validateFeatures fs =
    (if length fs \<noteq> FEATURE_COUNT then Inl (InvalidFeatureCount (length fs) FEATURE_COUNT)
     else validateFeatureValues 0 fs)"

text \<open>The prediction loop \<^verbatim>\<open>for (i = 0; i < FEATURE_COUNT; i++) prediction += features[i] * W[i]\<close>;
  it runs on a validated vector, whose length is \<open>FEATURE_COUNT\<close>, the length of both
  weight tables.\<close>

fun predictionLoop :: "real list \<Rightarrow> real list \<Rightarrow> real \<Rightarrow> real" where
  "predictionLoop (f # fs) (w # ws) prediction = predictionLoop fs ws (prediction + f * w)"
| "predictionLoop _ _ prediction = prediction"

definition sigmoid :: "real \<Rightarrow> real" where
  "sigmoid x = 1 / (1 + exp (- x))"

definition predictTreatment :: "real list \<Rightarrow> real" where
  "predictTreatment fs = sigmoid (predictionLoop fs TREATMENT_WEIGHTS 0)"

definition predictControl :: "real list \<Rightarrow> real" where
  "predictControl fs = sigmoid (predictionLoop fs CONTROL_WEIGHTS 0)"

definition calculateConfidence :: "real list \<Rightarrow> real" where
  "calculateConfidence fs =
    (let nonZeroCount = length (filter (\<lambda>f. f > 1 / 100) fs);
         sparsity = real nonZeroCount / real FEATURE_COUNT;
         mean = foldl (\<lambda>sum f. sum + f) 0 fs / real FEATURE_COUNT;
         variance = foldl (\<lambda>sum f. sum + (f - mean) ^ 2) 0 fs / real FEATURE_COUNT;
         confidence = sparsity * (6 / 10) + min variance (5 / 10) * (4 / 10) / (5 / 10)
     in clamp confidence 0 1)"

definition predict :: "CausalUpliftInput \<Rightarrow> error + CausalUpliftResult" where
  "predict input =
    (let fs = extractFeatures input
     in case validateFeatures fs of
          Inl err \<Rightarrow> Inl err
        | Inr _ \<Rightarrow>
           (let mu1 = predictTreatment (map finVal fs);
                mu0 = predictControl (map finVal fs)
            in Inr \<lparr>treatmentEffect = clamp (mu1 - mu0) 0 1,
                    confidence = calculateConfidence (map finVal fs),
                    modelVersion = MODEL_VERSION\<rparr>))"

definition CU_calculate :: "CausalUpliftInput \<Rightarrow> error + real" where
  "CU_calculate input =
    (case predict input of Inl err \<Rightarrow> Inl err | Inr result \<Rightarrow> Inr (treatmentEffect result))"

section \<open>InformationGainService\<close>

datatype Dimension = DValues | DInterests | DCommunication | DLifestyle | DGoals

datatype TraitSource = Conversation | Inferred | Explicit

record UserTrait =
  dimension :: Dimension
  trait :: string
  traitValue :: real
  traitConfidence :: real
  source :: TraitSource

text \<open>
  Each dimension of a \<^verbatim>\<open>UserProfile5D\<close> is a \<^verbatim>\<open>Map<string, UserTrait>\<close>: here an
  association list in insertion order, its keys distinct. \<open>mapSet\<close>, \<open>mapDelete\<close> and
  \<open>mapHas\<close> are \<^verbatim>\<open>Map.set\<close>, \<^verbatim>\<open>Map.delete\<close> and \<^verbatim>\<open>Map.has\<close>.
\<close>

type_synonym TraitMap = "(string \<times> UserTrait) list"

record UserProfile5D =
  p_userId :: string
  p_values :: TraitMap
  p_interests :: TraitMap
  p_communication :: TraitMap
  p_lifestyle :: TraitMap
  p_goals :: TraitMap
  knowYouMeterScore :: real

definition mapHas :: "TraitMap \<Rightarrow> string \<Rightarrow> bool" where
  "mapHas m k = (k \<in> set (map fst m))"

fun mapSet :: "TraitMap \<Rightarrow> string \<Rightarrow> UserTrait \<Rightarrow> TraitMap" where
  "mapSet [] k v = [(k, v)]"
| "mapSet ((k', v') # m) k v = (if k' = k then (k, v) # m else (k', v') # mapSet m k v)"

definition mapDelete :: "TraitMap \<Rightarrow> string \<Rightarrow> TraitMap" where
  "mapDelete m k = filter (\<lambda>kv. fst kv \<noteq> k) m"

record InformationGainResult =
  score :: real
  coverage :: real
  avgConfidence :: real
  entropyReduction :: real

definition MIN_TRAITS_PER_DIMENSION :: nat where
  "MIN_TRAITS_PER_DIMENSION = 5"

definition TOTAL_EXPECTED_TRAITS :: nat where
  "TOTAL_EXPECTED_TRAITS = 5 * MIN_TRAITS_PER_DIMENSION"

text \<open>The entropy loop of \<^verbatim>\<open>calculateEntropyReduction\<close>; \<open>entropy\<close> is the accumulator.\<close>

fun entropyLoop :: "real list \<Rightarrow> real \<Rightarrow> real \<Rightarrow> real" where
  "entropyLoop [] totalCov entropy = entropy"
| "entropyLoop (c # cs) totalCov entropy =
    (if c > 0 then entropyLoop cs totalCov (entropy - (c / totalCov) * log 2 (c / totalCov))
     else entropyLoop cs totalCov entropy)"

definition calculateEntropyReduction :: "real list \<Rightarrow> real" where
  "calculateEntropyReduction dimensionCoverages =
    (let totalCov = foldl (\<lambda>sum c. sum + c) 0 dimensionCoverages
     in if totalCov = 0 then 0
        else entropyLoop dimensionCoverages totalCov 0 / log 2 (real (length dimensionCoverages)))"

text \<open>The inner loop of \<^verbatim>\<open>calculateSingle\<close> over the traits of one dimension, adding their
  confidences to \<open>totalConfidence\<close>.\<close>

fun confidenceLoop :: "TraitMap \<Rightarrow> real \<Rightarrow> real" where
  "confidenceLoop [] totalConfidence = totalConfidence"
| "confidenceLoop ((k, t) # m) totalConfidence = confidenceLoop m (totalConfidence + traitConfidence t)"

text \<open>The outer loop over the five dimensions; the state is
  \<open>(totalTraits, totalConfidence, dimensionCoverages)\<close>.\<close>

fun dimensionLoop :: "TraitMap list \<Rightarrow> nat \<times> real \<times> real list \<Rightarrow> nat \<times> real \<times> real list" where
  "dimensionLoop [] acc = acc"
| "dimensionLoop (d # ds) (totalTraits, totalConfidence, dimensionCoverages) =
    dimensionLoop ds
      (totalTraits + length d,
       confidenceLoop d totalConfidence,
       dimensionCoverages @ [min (real (length d) / real MIN_TRAITS_PER_DIMENSION) 1])"

definition calculateSingle :: "UserProfile5D \<Rightarrow> InformationGainResult" where
  "calculateSingle profile =
    (let dimensions = [p_values profile, p_interests profile, p_communication profile,
                       p_lifestyle profile, p_goals profile]
     in case dimensionLoop dimensions (0, 0, []) of
          (totalTraits, totalConfidence, dimensionCoverages) \<Rightarrow>
            (let cov = min (real totalTraits / real TOTAL_EXPECTED_TRAITS) 1;
                 avgConf = (if totalTraits > 0 then totalConfidence / real totalTraits else 0);
                 ent = calculateEntropyReduction dimensionCoverages
             in \<lparr>score = clamp ((cov * (6 / 10) + avgConf * (4 / 10)) * (1 + ent * (1 / 10))) 0 1,
                 coverage = cov,
                 avgConfidence = avgConf,
                 entropyReduction = ent\<rparr>))"

definition IG_calculateDetailed :: "UserProfile5D \<Rightarrow> InformationGainResult" where
  "IG_calculateDetailed profile = calculateSingle profile"

definition IG_calculate :: "UserProfile5D \<Rightarrow> UserProfile5D \<Rightarrow> real" where
  "IG_calculate profile1 profile2 =
    (score (calculateSingle profile1) + score (calculateSingle profile2)) / 2"

definition getDimension :: "UserProfile5D \<Rightarrow> Dimension \<Rightarrow> TraitMap" where
  "getDimension profile d =
    (case d of DValues \<Rightarrow> p_values profile | DInterests \<Rightarrow> p_interests profile
     | DCommunication \<Rightarrow> p_communication profile | DLifestyle \<Rightarrow> p_lifestyle profile
     | DGoals \<Rightarrow> p_goals profile)"

definition setDimension :: "UserProfile5D \<Rightarrow> Dimension \<Rightarrow> TraitMap \<Rightarrow> UserProfile5D" where
  "setDimension profile d m =
    (case d of DValues \<Rightarrow> profile\<lparr>p_values := m\<rparr> | DInterests \<Rightarrow> profile\<lparr>p_interests := m\<rparr>
     | DCommunication \<Rightarrow> profile\<lparr>p_communication := m\<rparr> | DLifestyle \<Rightarrow> profile\<lparr>p_lifestyle := m\<rparr>
     | DGoals \<Rightarrow> profile\<lparr>p_goals := m\<rparr>)"

text \<open>
  \<^verbatim>\<open>validateMonotonicity\<close> mutates the profile (adds the mock trait, then deletes it):
  the profile is passed through and returned with the verdict.
\<close>

definition validateMonotonicity :: "UserProfile5D \<Rightarrow> Dimension \<Rightarrow> string \<Rightarrow> bool \<times> UserProfile5D" where
  "validateMonotonicity profile d traitKey =
    (let igBefore = calculateSingle profile;
         dimensionMap = getDimension profile d
     in if mapHas dimensionMap traitKey then (True, profile)
        else
          (let mockTrait = \<lparr>dimension = d, trait = traitKey, traitValue = 5 / 10,
                             traitConfidence = 5 / 10, source = Inferred\<rparr>;
               profile1 = setDimension profile d (mapSet dimensionMap traitKey mockTrait);
               igAfter = calculateSingle profile1;
               profile2 = setDimension profile1 d (mapDelete (getDimension profile1 d) traitKey)
           in (score igAfter \<ge> score igBefore, profile2)))"

section \<open>SafetyConstraintsService\<close>

record Location =
  latitude :: real
  longitude :: real

record Preferences =
  maxDistance :: "real option"
  minAge :: "real option"
  maxAge :: "real option"

record UserSafetyProfile =
  s_userId :: string
  age :: real
  location :: Location
  redFlags :: "string list"
  preferences :: Preferences

datatype FlagType = RedFlag | DistanceFlag | AgeGapFlag

text \<open>The description of a flag is a formatted message; the model keeps the message's kind
  and the values it prints.\<close>

datatype FlagDescription =
    User1HasFlag string
  | User2HasFlag string
  | DistanceExceedsMax real real
  | AgePreferencesNotMet real real
  | AgeGapExceedsThreshold real

record SafetyFlag =
  flagType :: FlagType
  severity :: real
  description :: FlagDescription

record SafetyConstraintsResult =
  sc_score :: real
  flags :: "SafetyFlag list"
  distancePenalty :: real
  agePenalty :: real

definition RED_FLAG_WEIGHT :: real where "RED_FLAG_WEIGHT = 6 / 10"
definition DISTANCE_WEIGHT :: real where "DISTANCE_WEIGHT = 25 / 100"
definition AGE_GAP_WEIGHT :: real where "AGE_GAP_WEIGHT = 15 / 100"
definition MAX_SAFE_DISTANCE :: real where "MAX_SAFE_DISTANCE = 50"
definition MAX_SAFE_AGE_GAP :: real where "MAX_SAFE_AGE_GAP = 15"

definition RED_FLAG_SEVERITY :: "(string \<times> real) list" where
  "RED_FLAG_SEVERITY =
    [(''harassment_history'', 1),
     (''violence_history'', 1),
     (''fake_profile'', 1),
     (''scam_attempt'', 1),
     (''multiple_reports'', 8 / 10),
     (''inappropriate_content'', 7 / 10),
     (''spam_behavior'', 6 / 10),
     (''incomplete_verification'', 4 / 10),
     (''suspicious_activity'', 3 / 10)]"

text \<open>\<^verbatim>\<open>this.RED_FLAG_SEVERITY[flag] ?? 0.5\<close>, for flag identifiers that do not name a
  property every JavaScript object inherits (such as \<^verbatim>\<open>constructor\<close>).\<close>

definition flagSeverity :: "string \<Rightarrow> real" where
  "flagSeverity flag = (case map_of RED_FLAG_SEVERITY flag of Some s \<Rightarrow> s | None \<Rightarrow> 5 / 10)"

text \<open>
  One of the two flag loops of \<^verbatim>\<open>evaluateRedFlags\<close>. The result says whether the loop
  left the method through its \<^verbatim>\<open>return 1.0\<close>, and carries \<open>maxSeverity\<close> and the
  flags pushed so far.
\<close>

fun redFlagLoop ::
  "(string \<Rightarrow> FlagDescription) \<Rightarrow> string list \<Rightarrow> real \<Rightarrow> SafetyFlag list \<Rightarrow> bool \<times> real \<times> SafetyFlag list" where
  "redFlagLoop describe [] maxSeverity fl = (False, maxSeverity, fl)"
| "redFlagLoop describe (flag # rest) maxSeverity fl =
    (let sev = flagSeverity flag;
         maxSeverity1 = max maxSeverity sev;
         fl1 = fl @ [\<lparr>flagType = RedFlag, severity = sev, description = describe flag\<rparr>]
     in if sev \<ge> 1 then (True, maxSeverity1, fl1)
        else redFlagLoop describe rest maxSeverity1 fl1)"

definition evaluateRedFlags ::
  "UserSafetyProfile \<Rightarrow> UserSafetyProfile \<Rightarrow> SafetyFlag list \<Rightarrow> real \<times> SafetyFlag list" where
  "evaluateRedFlags user1 user2 fl =
    (case redFlagLoop User1HasFlag (redFlags user1) 0 fl of
       (returned1, max1, fl1) \<Rightarrow>
         if returned1 then (1, fl1)
         else
           (case redFlagLoop User2HasFlag (redFlags user2) max1 fl1 of
              (returned2, max2, fl2) \<Rightarrow> if returned2 then (1, fl2) else (max2, fl2)))"

definition toRadians :: "real \<Rightarrow> real" where
  "toRadians degrees = degrees * (pi / 180)"

text \<open>\<^verbatim>\<open>Math.atan2(y, x)\<close> on finite arguments.\<close>

definition atan2 :: "real \<Rightarrow> real \<Rightarrow> real" where
  "atan2 y x =
    (if x > 0 then arctan (y / x)
     else if x < 0 then (if y \<ge> 0 then arctan (y / x) + pi else arctan (y / x) - pi)
     else if y > 0 then pi / 2
     else if y < 0 then - (pi / 2)
     else 0)"

text \<open>
  \<^verbatim>\<open>haversineDistance\<close>. For latitudes within \<open>[-90, 90]\<close> the quantity \<open>a\<close> lies in
  \<open>[0, 1]\<close> and both square roots are those of the code.
\<close>

definition haversineDistance :: "real \<Rightarrow> real \<Rightarrow> real \<Rightarrow> real \<Rightarrow> real" where
  "haversineDistance lat1 lon1 lat2 lon2 =
    (let R = 6371;
         dLat = toRadians (lat2 - lat1);
         dLon = toRadians (lon2 - lon1);
         a = sin (dLat / 2) * sin (dLat / 2) +
             cos (toRadians lat1) * cos (toRadians lat2) * sin (dLon / 2) * sin (dLon / 2);
         c = 2 * atan2 (sqrt a) (sqrt (1 - a))
     in R * c)"

text \<open>
  \<^verbatim>\<open>calculateDistancePenalty\<close>. Where the stricter limit is \<open>0\<close> and the distance exceeds
  it, the double division \<^verbatim>\<open>distance / maxDistance\<close> is \<^verbatim>\<open>Infinity\<close> and the severity
  \<^verbatim>\<open>Math.min(Infinity - 1, 1)\<close> is \<open>1\<close>: that branch is written out.
\<close>

definition calculateDistancePenalty ::
  "UserSafetyProfile \<Rightarrow> UserSafetyProfile \<Rightarrow> SafetyFlag list \<Rightarrow> real \<times> SafetyFlag list" where
  "calculateDistancePenalty user1 user2 fl =
    (let distance = haversineDistance (latitude (location user1)) (longitude (location user1))
                      (latitude (location user2)) (longitude (location user2));
         maxDist = min (case maxDistance (preferences user1) of Some d \<Rightarrow> d | None \<Rightarrow> MAX_SAFE_DISTANCE)
                       (case maxDistance (preferences user2) of Some d \<Rightarrow> d | None \<Rightarrow> MAX_SAFE_DISTANCE)
     in if distance > maxDist then
          (let sev = (if maxDist = 0 then 1 else min (distance / maxDist - 1) 1)
           in (sev, fl @ [\<lparr>flagType = DistanceFlag, severity = sev,
                            description = DistanceExceedsMax distance maxDist\<rparr>]))
        else (min (distance / MAX_SAFE_DISTANCE) 1, fl))"

text \<open>\<^verbatim>\<open>!pref || cond\<close>: an unset preference and the preference \<open>0\<close> are both falsy.\<close>

definition unsetOr :: "real option \<Rightarrow> (real \<Rightarrow> bool) \<Rightarrow> bool" where
  "unsetOr pref cond = (case pref of None \<Rightarrow> True | Some v \<Rightarrow> v = 0 \<or> cond v)"

definition calculateAgeGapPenalty ::
  "UserSafetyProfile \<Rightarrow> UserSafetyProfile \<Rightarrow> SafetyFlag list \<Rightarrow> real \<times> SafetyFlag list" where
  "calculateAgeGapPenalty user1 user2 fl =
    (let ageGap = \<bar>age user1 - age user2\<bar>;
         user1Compatible =
           (unsetOr (minAge (preferences user1)) (\<lambda>m. age user2 \<ge> m) \<and>
            unsetOr (maxAge (preferences user1)) (\<lambda>m. age user2 \<le> m));
         user2Compatible =
           (unsetOr (minAge (preferences user2)) (\<lambda>m. age user1 \<ge> m) \<and>
            unsetOr (maxAge (preferences user2)) (\<lambda>m. age user1 \<le> m))
     in if \<not> user1Compatible \<or> \<not> user2Compatible then
          (8 / 10, fl @ [\<lparr>flagType = AgeGapFlag, severity = 8 / 10,
                           description = AgePreferencesNotMet (age user1) (age user2)\<rparr>])
        else if ageGap > MAX_SAFE_AGE_GAP then
          (let sev = min ((ageGap - MAX_SAFE_AGE_GAP) / 10) 1
           in (sev, fl @ [\<lparr>flagType = AgeGapFlag, severity = sev,
                            description = AgeGapExceedsThreshold ageGap\<rparr>]))
        else (ageGap / MAX_SAFE_AGE_GAP, fl))"

definition SC_calculateDetailed :: "UserSafetyProfile \<Rightarrow> UserSafetyProfile \<Rightarrow> SafetyConstraintsResult" where
  "SC_calculateDetailed user1 user2 =
    (case evaluateRedFlags user1 user2 [] of
       (redFlagPenalty, fl1) \<Rightarrow>
         (case calculateDistancePenalty user1 user2 fl1 of
            (distPenalty, fl2) \<Rightarrow>
              (case calculateAgeGapPenalty user1 user2 fl2 of
                 (agePen, fl3) \<Rightarrow>
                   (let totalPenalty = RED_FLAG_WEIGHT * redFlagPenalty +
                                       DISTANCE_WEIGHT * distPenalty +
                                       AGE_GAP_WEIGHT * agePen
                    in \<lparr>sc_score = clamp totalPenalty 0 1,
                        flags = fl3,
                        distancePenalty = distPenalty,
                        agePenalty = agePen\<rparr>))))"

definition SC_calculate :: "UserSafetyProfile \<Rightarrow> UserSafetyProfile \<Rightarrow> real" where
  "SC_calculate user1 user2 = sc_score (SC_calculateDetailed user1 user2)"

section \<open>RBSService\<close>

record RBSUser =
  userId :: string
  embedding :: "number list"
  profile5D :: UserProfile5D
  safetyProfile :: UserSafetyProfile

record RBSInput =
  user1 :: RBSUser
  user2 :: RBSUser
  causalFeatures :: "number list option"

text \<open>The returned score. Its \<^verbatim>\<open>timestamp\<close> and the latency warning read the clock and are
  left out.\<close>

record RBSScore =
  rbs_total :: number
  rbs_sr :: real
  rbs_cu :: real
  rbs_ig :: real
  rbs_sc :: real

record RBSService =
  weights :: RBSWeights

definition validateWeights :: "RBSWeights \<Rightarrow> error + unit" where
  "validateWeights w =
    (let sum = num_add (num_add (alpha w) (beta w)) (gamma w)
     in if num_gt (num_abs (num_sub sum (Fin 1))) (Fin (1 / 100))
          then Inl (WeightsMustSumToOne (alpha w) (beta w) (gamma w) sum)
        else if num_lt (delta w) (Fin 0) \<or> num_gt (delta w) (Fin (3 / 10))
          then Inl (DeltaOutOfRange (delta w))
        else if num_le (alpha w) (Fin 0) \<or> num_le (beta w) (Fin 0) \<or> num_le (gamma w) (Fin 0) \<or>
                num_lt (delta w) (Fin 0)
          then Inl WeightsMustBePositive
        else Inr ())"

text \<open>
  The constructor: it builds the four component services (the SubspaceResonanceService
  validates the configured subspaces), loads the weights and validates them.
\<close>

definition newRBSService :: "RBSWeights \<Rightarrow> error + RBSService" where
  "newRBSService w =
    (case validateSubspaces config_subspaces of
       Inl err \<Rightarrow> Inl err
     | Inr _ \<Rightarrow> (case validateWeights w of Inl err \<Rightarrow> Inl err | Inr _ \<Rightarrow> Inr \<lparr>weights = w\<rparr>))"

text \<open>The private \<^verbatim>\<open>cosineSimilarity\<close> of RBSService: it stops at the shorter vector and never
  throws.\<close>

definition RBS_cosineSimilarity :: "real list \<Rightarrow> real list \<Rightarrow> real" where
  "RBS_cosineSimilarity v1 v2 =
    (case cosineLoop v1 v2 (0, 0, 0) of
       (dotProduct, mag1, mag2) \<Rightarrow>
         (if sqrt mag1 = 0 \<or> sqrt mag2 = 0 then 0 else dotProduct / (sqrt mag1 * sqrt mag2)))"

definition extractCausalFeatures :: "RBSInput \<Rightarrow> number list" where
  "extractCausalFeatures input =
    (let ig1 = IG_calculateDetailed (profile5D (user1 input));
         ig2 = IG_calculateDetailed (profile5D (user2 input));
         sp1 = safetyProfile (user1 input);
         sp2 = safetyProfile (user2 input);
         ageGap = \<bar>age sp1 - age sp2\<bar>;
         ageDiff = ageGap / 50;
         commEmbedding1 = map finVal (slice (embedding (user1 input)) 384 448);
         commEmbedding2 = map finVal (slice (embedding (user2 input)) 384 448);
         commSimilarity = RBS_cosineSimilarity commEmbedding1 commEmbedding2;
         interestEmbedding1 = map finVal (slice (embedding (user1 input)) 128 384);
         interestEmbedding2 = map finVal (slice (embedding (user2 input)) 128 384);
         interestSimilarity = RBS_cosineSimilarity interestEmbedding1 interestEmbedding2;
         comm1 = real (length (p_communication (profile5D (user1 input))));
         comm2 = real (length (p_communication (profile5D (user2 input))));
         int1 = real (length (p_interests (profile5D (user1 input))));
         int2 = real (length (p_interests (profile5D (user2 input))));
         fs = [coverage ig1, coverage ig2, avgConfidence ig1, avgConfidence ig2,
               ageDiff, age sp1 / 100, age sp2 / 100,
               real (length (redFlags sp1)) / 5, real (length (redFlags sp2)) / 5,
               entropyReduction ig1,
               commSimilarity, comm1 / 10, comm2 / 10, entropyReduction ig2,
               (avgConfidence ig1 + avgConfidence ig2) / 2,
               interestSimilarity, int1 / 20, int2 / 20, (int1 + int2) / 40,
               (coverage ig1 + coverage ig2) / 2]
     in slice (map Fin fs) 0 20)"

definition calculateSR :: "RBSInput \<Rightarrow> error + real" where
  "calculateSR input = SR_calculate (embedding (user1 input)) (embedding (user2 input))"

definition calculateCU :: "RBSInput \<Rightarrow> error + real" where
  "calculateCU input =
    (let fs = (case causalFeatures input of Some given \<Rightarrow> given | None \<Rightarrow> extractCausalFeatures input)
     in CU_calculate \<lparr>cu_userId = userId (user1 input), cu_partnerId = userId (user2 input),
                       features = fs\<rparr>)"

definition calculateIG :: "RBSInput \<Rightarrow> real" where
  "calculateIG input = IG_calculate (profile5D (user1 input)) (profile5D (user2 input))"

definition calculateSC :: "RBSInput \<Rightarrow> real" where
  "calculateSC input = SC_calculate (safetyProfile (user1 input)) (safetyProfile (user2 input))"

text \<open>The second half of \<^verbatim>\<open>calculate\<close>: the RBS formula applied to the four component
  values, and the returned object.\<close>

definition applyFormula :: "RBSWeights \<Rightarrow> real \<Rightarrow> real \<Rightarrow> real \<Rightarrow> real \<Rightarrow> RBSScore" where
  "applyFormula w sr cu ig sc =
    \<lparr>rbs_total =
       num_clamp
         (num_sub
            (num_add
               (num_add (num_mul (alpha w) (Fin sr)) (num_mul (beta w) (Fin cu)))
               (num_mul (gamma w) (Fin ig)))
            (num_mul (delta w) (Fin sc)))
         (Fin 0) (Fin 1),
     rbs_sr = sr, rbs_cu = cu, rbs_ig = ig, rbs_sc = sc\<rparr>"

text \<open>
  \<^verbatim>\<open>calculate\<close>: \<^verbatim>\<open>Promise.all\<close> over the four components rejects when one of them
  rejects; the rejection of the subspace resonance is the first to settle.
\<close>

definition RBS_calculate :: "RBSService \<Rightarrow> RBSInput \<Rightarrow> error + RBSScore" where
  "RBS_calculate service input =
    (case calculateSR input of
       Inl err \<Rightarrow> Inl err
     | Inr sr \<Rightarrow>
        (case calculateCU input of
           Inl err \<Rightarrow> Inl err
         | Inr cu \<Rightarrow> Inr (applyFormula (weights service) sr cu (calculateIG input) (calculateSC input))))"

section \<open>Match store (MatchRepository) and vector search (QdrantService)\<close>

datatype MatchStatus = Pending | Accepted | Rejected | Expired

record JSDate =
  fullYear :: int
  month :: int
  date :: int

text \<open>
  A row of the \<^verbatim>\<open>matches\<close> table. The identifier and the creation time are assigned by
  the store and are left out; \<^verbatim>\<open>expires_at\<close> is a required column without a default; the
  table has a unique index on \<^verbatim>\<open>(user_id, matched_user_id)\<close>.
\<close>

record Match =
  m_userId :: string
  m_matchedUserId :: string
  m_rbsScore :: real
  m_srScore :: real
  m_cuScore :: real
  m_igScore :: real
  m_scScore :: real
  m_status :: MatchStatus
  m_expiresAt :: JSDate

text \<open>The argument of \<^verbatim>\<open>MatchRepository.create\<close>; \<open>ci_expiresAt\<close> is \<open>None\<close> where the caller
  leaves \<^verbatim>\<open>expiresAt\<close> out.\<close>

record CreateMatchInput =
  ci_userId :: string
  ci_matchedUserId :: string
  ci_rbsScore :: real
  ci_srScore :: real
  ci_cuScore :: real
  ci_igScore :: real
  ci_scScore :: real
  ci_expiresAt :: "JSDate option"

definition findByUserPair :: "Match list \<Rightarrow> string \<Rightarrow> string \<Rightarrow> Match option" where
  "findByUserPair store uid mid = find (\<lambda>r. m_userId r = uid \<and> m_matchedUserId r = mid) store"

text \<open>
  \<^verbatim>\<open>MatchRepository.create\<close>: the database client refuses a create without the required
  \<^verbatim>\<open>expiresAt\<close> before it reaches the table; the insert fails on the unique index
  (Prisma error P2002) when the ordered pair already has a row.
\<close>

definition create :: "Match list \<Rightarrow> CreateMatchInput \<Rightarrow> error + Match list" where
  "create store input =
    (case ci_expiresAt input of
       None \<Rightarrow> Inl (MissingArgument ''expiresAt'')
     | Some expires \<Rightarrow>
        (if findByUserPair store (ci_userId input) (ci_matchedUserId input) \<noteq> None
           then Inl MatchAlreadyExists
         else Inr (store @
                [\<lparr>m_userId = ci_userId input, m_matchedUserId = ci_matchedUserId input,
                  m_rbsScore = ci_rbsScore input, m_srScore = ci_srScore input,
                  m_cuScore = ci_cuScore input, m_igScore = ci_igScore input,
                  m_scScore = ci_scScore input, m_status = Pending,
                  m_expiresAt = expires\<rparr>])))"

record VectorPoint =
  vp_id :: string
  vector :: "number list"

record SearchResult =
  sr_id :: string
  sr_score :: real

record User =
  u_id :: string
  u_firstName :: string
  u_dateOfBirth :: JSDate
  u_location :: Location

text \<open>
  The collaborators of the discovery route: \<open>getVector\<close> and \<open>clientSearch\<close> are the vector
  index, \<open>findById\<close> the user table, \<open>today\<close> the clock read by \<^verbatim>\<open>calculateAge\<close>,
  \<open>configWeights\<close> the configured RBS weights.
\<close>

record Env =
  getVector :: "string \<Rightarrow> VectorPoint option"
  clientSearch :: "number list \<Rightarrow> nat \<Rightarrow> SearchResult list"
  findById :: "string \<Rightarrow> User option"
  today :: JSDate
  configWeights :: RBSWeights

definition searchSimilar :: "Env \<Rightarrow> number list \<Rightarrow> nat \<Rightarrow> error + SearchResult list" where
  "searchSimilar env vec k =
    (if length vec \<noteq> 768 then Inl (VectorSizeMismatch 768 (length vec))
     else Inr (clientSearch env vec k))"

section \<open>GET /api/matches/discover\<close>

text \<open>What the route reads from the result of \<^verbatim>\<open>rbsService.calculateScore\<close>.\<close>

record ScoreResult =
  res_rbs :: real
  res_sr :: real
  res_cu :: real
  res_ig :: real
  res_sc :: real

text \<open>
  The route scores a pair with \<^verbatim>\<open>rbsService.calculateScore(user.userId, candidate.id)\<close>.
  RBSService.ts defines no method of that name (its scoring method is
  \<^verbatim>\<open>calculate(input)\<close>), so the property is \<^verbatim>\<open>undefined\<close> and the call throws a
  \<^verbatim>\<open>TypeError\<close>, for every service, user and candidate.
\<close>

definition RBS_calculateScore :: "RBSService \<Rightarrow> string \<Rightarrow> string \<Rightarrow> error + ScoreResult" where
  "RBS_calculateScore service uid cid = Inl (TypeError ''rbsService.calculateScore is not a function'')"

record ScoredMatch =
  sm_userId :: string
  sm_firstName :: string
  sm_age :: int
  sm_location :: Location
  sm_rbsScore :: real
  sm_compatibility :: int

datatype Response =
    Unauthorized
  | BadRequest string
  | NeedMoreConversation
  | EmptyMatches
  | Matches "ScoredMatch list"
  | ApiError error

definition calculateAge :: "JSDate \<Rightarrow> JSDate \<Rightarrow> int" where
  "calculateAge now dateOfBirth =
    (let age0 = fullYear now - fullYear dateOfBirth;
         monthDiff = month now - month dateOfBirth
     in if monthDiff < 0 \<or> (monthDiff = 0 \<and> date now < date dateOfBirth) then age0 - 1 else age0)"

text \<open>
  \<^verbatim>\<open>validatePagination\<close>. \<open>page\<close> and \<open>limit\<close> are what \<^verbatim>\<open>parseInt\<close> returns for the query
  parameters: an integer, or \<^verbatim>\<open>NaN\<close> for a parameter that is not a number. \<^verbatim>\<open>NaN\<close>
  fails none of the three comparisons and is returned as it is.
\<close>

definition validatePagination :: "number \<Rightarrow> number \<Rightarrow> string + number \<times> number" where
  "validatePagination page limit =
    (if num_lt page (Fin 1) then Inl ''Page must be >= 1''
     else if num_lt limit (Fin 1) \<or> num_gt limit (Fin 100) then Inl ''Limit must be between 1 and 100''
     else Inr (page, limit))"

text \<open>
  The loop over the candidates. A candidate with a Match row, or without a user record, is
  skipped (\<^verbatim>\<open>continue\<close>); an exception of \<^verbatim>\<open>calculateScore\<close> or of \<open>create\<close> leaves the
  loop for the handler's \<^verbatim>\<open>catch\<close>, with the store as it then is; the loop stops
  (\<^verbatim>\<open>break\<close>) once \<^verbatim>\<open>scoredMatches.length >= limit\<close>. The route's call of \<open>create\<close>
  passes no \<^verbatim>\<open>expiresAt\<close>.
\<close>

fun discoverLoop ::
  "Env \<Rightarrow> RBSService \<Rightarrow> string \<Rightarrow> number \<Rightarrow> SearchResult list \<Rightarrow> Match list \<Rightarrow> ScoredMatch list \<Rightarrow>
   Match list \<times> (error + ScoredMatch list)" where
  "discoverLoop env rbsService uid limit [] store scoredMatches = (store, Inr scoredMatches)"
| "discoverLoop env rbsService uid limit (candidate # rest) store scoredMatches =
    (case findByUserPair store uid (sr_id candidate) of
       Some existingMatch \<Rightarrow> discoverLoop env rbsService uid limit rest store scoredMatches
     | None \<Rightarrow>
        (case findById env (sr_id candidate) of
           None \<Rightarrow> discoverLoop env rbsService uid limit rest store scoredMatches
         | Some candidateUser \<Rightarrow>
            (case RBS_calculateScore rbsService uid (sr_id candidate) of
               Inl err \<Rightarrow> (store, Inl err)
             | Inr rbsScore \<Rightarrow>
                (case create store
                        \<lparr>ci_userId = uid, ci_matchedUserId = sr_id candidate,
                         ci_rbsScore = res_rbs rbsScore, ci_srScore = res_sr rbsScore,
                         ci_cuScore = res_cu rbsScore, ci_igScore = res_ig rbsScore,
                         ci_scScore = res_sc rbsScore, ci_expiresAt = None\<rparr> of
                   Inl err \<Rightarrow> (store, Inl err)
                 | Inr store1 \<Rightarrow>
                    (let scoredMatches1 = scoredMatches @
                           [\<lparr>sm_userId = sr_id candidate,
                             sm_firstName = u_firstName candidateUser,
                             sm_age = calculateAge (today env) (u_dateOfBirth candidateUser),
                             sm_location = u_location candidateUser,
                             sm_rbsScore = res_rbs rbsScore,
                             sm_compatibility = \<lfloor>res_rbs rbsScore * 100 + 1 / 2\<rfloor>\<rparr>]
                     in if num_ge (Fin (real (length scoredMatches1))) limit
                          then (store1, Inr scoredMatches1)
                        else discoverLoop env rbsService uid limit rest store1 scoredMatches1)))))"

text \<open>\<^verbatim>\<open>scoredMatches.sort((a, b) => b.rbsScore - a.rbsScore)\<close>: a stable sort, descending by
  score.\<close>

definition sortByScore :: "ScoredMatch list \<Rightarrow> ScoredMatch list" where
  "sortByScore ms = sort_key (\<lambda>m. - sm_rbsScore m) ms"

text \<open>
  The handler, from the authentication result on: \<open>auth\<close> is the authenticated user's id,
  \<open>page\<close> and \<open>limit\<close> what \<^verbatim>\<open>parseInt\<close> read from the query, \<open>store\<close> the
  \<^verbatim>\<open>matches\<close> table. It returns the table as the request leaves it, and the response.
\<close>

definition GET :: "Env \<Rightarrow> string option \<Rightarrow> number \<Rightarrow> number \<Rightarrow> Match list \<Rightarrow> Match list \<times> Response" where
  "GET env auth page limit store =
    (case auth of
       None \<Rightarrow> (store, Unauthorized)
     | Some uid \<Rightarrow>
        (case validatePagination page limit of
           Inl msg \<Rightarrow> (store, BadRequest msg)
         | Inr _ \<Rightarrow>
            (case getVector env uid of
               None \<Rightarrow> (store, NeedMoreConversation)
             | Some userVector \<Rightarrow>
                (case searchSimilar env (vector userVector) 100 of
                   Inl err \<Rightarrow> (store, ApiError err)
                 | Inr similarUsers \<Rightarrow>
                    if length similarUsers = 0 then (store, EmptyMatches)
                    else
                      (case newRBSService (configWeights env) of
                         Inl err \<Rightarrow> (store, ApiError err)
                       | Inr rbsService \<Rightarrow>
                          (case findById env uid of
                             None \<Rightarrow> (store, EmptyMatches)
                           | Some currentUser \<Rightarrow>
                              (case discoverLoop env rbsService uid limit (slice similarUsers 0 50) store [] of
                                 (store1, Inl err) \<Rightarrow> (store1, ApiError err)
                               | (store1, Inr scoredMatches) \<Rightarrow>
                                   (store1, Matches (sortByScore scoredMatches)))))))))"

section \<open>Example inputs\<close>

text \<open>Concrete inputs (not part of the source) at which the theorems below are evaluated.\<close>

definition zeroEmbedding :: "number list" where
  "zeroEmbedding = replicate 768 (Fin 0)"

definition onesEmbedding :: "number list" where
  "onesEmbedding = replicate 768 (Fin 1)"

definition emptyProfile :: UserProfile5D where
  "emptyProfile = \<lparr>p_userId = ''test-user'', p_values = [], p_interests = [],
     p_communication = [], p_lifestyle = [], p_goals = [], knowYouMeterScore = 0\<rparr>"

definition oneTraitProfile :: UserProfile5D where
  "oneTraitProfile = emptyProfile
     \<lparr>p_values := [(''honesty'', \<lparr>dimension = DValues, trait = ''honesty'', traitValue = 1,
                                 traitConfidence = 1, source = Conversation\<rparr>)]\<rparr>"

definition mockUser :: "real \<Rightarrow> string list \<Rightarrow> UserSafetyProfile" where
  "mockUser a fl = \<lparr>s_userId = ''user'', age = a, location = \<lparr>latitude = 0, longitude = 0\<rparr>,
     redFlags = fl, preferences = \<lparr>maxDistance = None, minAge = None, maxAge = None\<rparr>\<rparr>"

definition exampleInput :: RBSInput where
  "exampleInput =
    \<lparr>user1 = \<lparr>userId = ''u1'', embedding = onesEmbedding, profile5D = oneTraitProfile,
               safetyProfile = mockUser 30 [''spam_behavior'']\<rparr>,
     user2 = \<lparr>userId = ''u2'', embedding = onesEmbedding, profile5D = oneTraitProfile,
               safetyProfile = mockUser 40 []\<rparr>,
     causalFeatures = Some []\<rparr>"

definition exampleUser :: "string \<Rightarrow> User" where
  "exampleUser i = \<lparr>u_id = i, u_firstName = ''Alex'',
     u_dateOfBirth = \<lparr>fullYear = 1990, month = 0, date = 1\<rparr>,
     u_location = \<lparr>latitude = 0, longitude = 0\<rparr>\<rparr>"

text \<open>The configured weights when \<^verbatim>\<open>RBS_ALPHA\<close> is set to a text that is not a number
  (\<^verbatim>\<open>parseFloat\<close> returns \<^verbatim>\<open>NaN\<close>) and the other three variables are unset.\<close>

definition nanAlphaWeights :: RBSWeights where
  "nanAlphaWeights =
    \<lparr>alpha = NaN, beta = Fin (30 / 100), gamma = Fin (25 / 100), delta = Fin (15 / 100)\<rparr>"

text \<open>An environment with two candidates, \<open>c1\<close> (nearest) and \<open>c2\<close>, for every user;
  the user table is left open.\<close>

definition exampleEnv :: "(string \<Rightarrow> User option) \<Rightarrow> Env" where
  "exampleEnv users =
    \<lparr>getVector = (\<lambda>i. Some \<lparr>vp_id = i, vector = onesEmbedding\<rparr>),
     clientSearch = (\<lambda>v k. [\<lparr>sr_id = ''c1'', sr_score = 95 / 100\<rparr>,
                              \<lparr>sr_id = ''c2'', sr_score = 90 / 100\<rparr>]),
     findById = users,
     today = \<lparr>fullYear = 2025, month = 9, date = 29\<rparr>,
     configWeights = config_default_weights\<rparr>"


definition usersWithoutC2 :: "string \<Rightarrow> User option" where
  "usersWithoutC2 i = (if i = ''c2'' then None else Some (exampleUser i))"

text \<open>A Match row of user \<open>u\<close> for candidate \<open>c\<close>, as a table may hold it.\<close>

definition exampleRow :: "string \<Rightarrow> Match" where
  "exampleRow c = \<lparr>m_userId = ''u'', m_matchedUserId = c, m_rbsScore = 7 / 10, m_srScore = 1,
     m_cuScore = 0, m_igScore = 0, m_scScore = 0, m_status = Pending,
     m_expiresAt = \<lparr>fullYear = 2025, month = 10, date = 5\<rparr>\<rparr>"

section \<open>Component values on simple inputs\<close>

lemma cosineLoop_sums:
  "length xs = length ys \<Longrightarrow>
   cosineLoop xs ys (d, m1, m2) =
     (d + (\<Sum>(x, y)\<leftarrow>zip xs ys. x * y), m1 + (\<Sum>x\<leftarrow>xs. x * x), m2 + (\<Sum>y\<leftarrow>ys. y * y))"
  by (induction xs ys arbitrary: d m1 m2 rule: list_induct2) simp_all

lemma cosineLoop_zero: "cosineLoop (replicate n 0) (replicate n 0) (0, 0, 0) = (0, 0, 0)"
  by (simp add: cosineLoop_sums sum_list_replicate)

lemma SR_cosineSimilarity_zero: "SR_cosineSimilarity (replicate n 0) (replicate n 0) = Inr 0"
  by (simp add: SR_cosineSimilarity_def cosineLoop_zero)

lemma predictionLoop_zeros: "predictionLoop (replicate n 0) ws p = p"
  by (induction ws arbitrary: n p) (case_tac n; simp)+

lemma validateFeatureValues_zeros: "validateFeatureValues i (replicate n (Fin 0)) = Inr ()"
  by (induction n arbitrary: i) simp_all

lemma predict_no_features:
  "predict \<lparr>cu_userId = a, cu_partnerId = b, features = []\<rparr> =
     Inr \<lparr>treatmentEffect = 0, confidence = calculateConfidence (replicate 20 0), modelVersion = MODEL_VERSION\<rparr>"
  by (simp add: predict_def extractFeatures_def FEATURE_COUNT_def validateFeatures_def
      validateFeatureValues_zeros predictTreatment_def predictControl_def predictionLoop_zeros clamp_def)

lemma haversineDistance_same: "haversineDistance lat lon lat lon = 0"
  by (simp add: haversineDistance_def toRadians_def atan2_def)

section \<open>Causal uplift: validation, padding and truncation\<close>

lemma length_extractFeatures: "length (extractFeatures input) = FEATURE_COUNT"
  by (simp add: extractFeatures_def slice_def)

lemma set_extractFeatures:
  "set (extractFeatures input) =
     (if length (features input) \<ge> FEATURE_COUNT then set (take FEATURE_COUNT (features input))
      else insert (Fin 0) (set (features input)))"
  by (auto simp: extractFeatures_def slice_def)

lemma validateFeatureValues_Inr_iff:
  "validateFeatureValues i fs = Inr () \<longleftrightarrow> list_all isFinite fs"
  by (induction fs arbitrary: i) simp_all

lemma validateFeatureValues_cases:
  "validateFeatureValues i fs = Inr () \<or> (\<exists>err. validateFeatureValues i fs = Inl err)"
  by (cases "validateFeatureValues i fs") simp_all

lemma validateFeatures_extract_Inl_iff:
  "(\<exists>err. validateFeatures (extractFeatures input) = Inl err) \<longleftrightarrow>
     \<not> list_all isFinite (take FEATURE_COUNT (features input))"
proof -
  have "list_all isFinite (extractFeatures input) \<longleftrightarrow> list_all isFinite (take FEATURE_COUNT (features input))"
    by (auto simp: list_all_iff set_extractFeatures)
  moreover have "(\<exists>err. validateFeatures (extractFeatures input) = Inl err) \<longleftrightarrow>
      \<not> list_all isFinite (extractFeatures input)"
    using validateFeatureValues_Inr_iff[of 0 "extractFeatures input"]
      validateFeatureValues_cases[of 0 "extractFeatures input"]
    by (auto simp: validateFeatures_def length_extractFeatures)
  ultimately show ?thesis by simp
qed

lemma predict_Inl_iff:
  "(\<exists>err. predict input = Inl err) \<longleftrightarrow> (\<exists>err. validateFeatures (extractFeatures input) = Inl err)"
  by (cases "validateFeatures (extractFeatures input)") (simp_all add: predict_def Let_def)

lemma predict_Inr:
  assumes "validateFeatures (extractFeatures input) = Inr u"
  shows "predict input =
     Inr \<lparr>treatmentEffect =
            clamp (predictTreatment (map finVal (extractFeatures input)) -
                   predictControl (map finVal (extractFeatures input))) 0 1,
          confidence = calculateConfidence (map finVal (extractFeatures input)),
          modelVersion = MODEL_VERSION\<rparr>"
  using assms by (simp add: predict_def Let_def)

text \<open>
  Claim C9 (amended). \<open>predict\<close> fails with an error exactly when one of the first 20
  feature values of its input is non-finite. A vector shorter than 20 entries is padded with
  zeros to length 20, a longer one is cut to its first 20 entries, and in both cases, when
  those entries are finite, \<open>predict\<close> returns its result for the padded or cut vector.
\<close>

theorem predict_fails_iff_nonfinite_among_first_20:
  "((\<exists>err. predict input = Inl err) \<longleftrightarrow> (\<exists>f \<in> set (take 20 (features input)). \<not> isFinite f)) \<and>
   (length (features input) < 20 \<longrightarrow>
      extractFeatures input = features input @ replicate (20 - length (features input)) (Fin 0)) \<and>
   (length (features input) \<ge> 20 \<longrightarrow> extractFeatures input = take 20 (features input)) \<and>
   ((\<forall>f \<in> set (take 20 (features input)). isFinite f) \<longrightarrow>
      predict input =
        Inr \<lparr>treatmentEffect =
               clamp (predictTreatment (map finVal (extractFeatures input)) -
                      predictControl (map finVal (extractFeatures input))) 0 1,
             confidence = calculateConfidence (map finVal (extractFeatures input)),
             modelVersion = MODEL_VERSION\<rparr>)"
proof -
  have 1: "(\<exists>err. predict input = Inl err) \<longleftrightarrow> (\<exists>f \<in> set (take 20 (features input)). \<not> isFinite f)"
    using predict_Inl_iff[of input] validateFeatures_extract_Inl_iff[of input]
    by (simp add: list_all_iff FEATURE_COUNT_def)
  have 2: "length (features input) < 20 \<longrightarrow>
      extractFeatures input = features input @ replicate (20 - length (features input)) (Fin 0)"
    by (simp add: extractFeatures_def FEATURE_COUNT_def)
  have 3: "length (features input) \<ge> 20 \<longrightarrow> extractFeatures input = take 20 (features input)"
    by (simp add: extractFeatures_def FEATURE_COUNT_def slice_def)
  have 4: "predict input =
        Inr \<lparr>treatmentEffect =
               clamp (predictTreatment (map finVal (extractFeatures input)) -
                      predictControl (map finVal (extractFeatures input))) 0 1,
             confidence = calculateConfidence (map finVal (extractFeatures input)),
             modelVersion = MODEL_VERSION\<rparr>"
    if "\<forall>f \<in> set (take 20 (features input)). isFinite f"
  proof -
    from that 1 have "\<not> (\<exists>err. predict input = Inl err)" by blast
    then have "\<not> (\<exists>err. validateFeatures (extractFeatures input) = Inl err)"
      using predict_Inl_iff[of input] by simp
    then obtain u where "validateFeatures (extractFeatures input) = Inr u"
      by (cases "validateFeatures (extractFeatures input)") auto
    then show ?thesis by (rule predict_Inr)
  qed
  from 1 2 3 4 show ?thesis by blast
qed

text \<open>A non-finite second entry is refused; a single finite entry is padded with 19 zeros.\<close>

theorem predict_witness:
  "(\<exists>err. predict \<lparr>cu_userId = ''a'', cu_partnerId = ''b'', features = [Fin 1, NaN]\<rparr> = Inl err) \<and>
   extractFeatures \<lparr>cu_userId = ''a'', cu_partnerId = ''b'', features = [Fin 1]\<rparr> =
     Fin 1 # replicate 19 (Fin 0) \<and>
   extractFeatures \<lparr>cu_userId = ''a'', cu_partnerId = ''b'', features = replicate 25 (Fin 1)\<rparr> =
     replicate 20 (Fin 1) \<and>
   (\<exists>r. predict \<lparr>cu_userId = ''a'', cu_partnerId = ''b'', features = [Fin 1]\<rparr> = Inr r)"
  using predict_fails_iff_nonfinite_among_first_20
          [of "\<lparr>cu_userId = ''a'', cu_partnerId = ''b'', features = [Fin 1, NaN]\<rparr>"]
        predict_fails_iff_nonfinite_among_first_20
          [of "\<lparr>cu_userId = ''a'', cu_partnerId = ''b'', features = [Fin 1]\<rparr>"]
        predict_fails_iff_nonfinite_among_first_20
          [of "\<lparr>cu_userId = ''a'', cu_partnerId = ''b'', features = replicate 25 (Fin 1)\<rparr>"]
  by simp

text \<open>
  Claim C9 as stated fails: a non-finite value at index 20 of a 21-entry vector is cut off
  before validation, and \<open>predict\<close> returns a result.
\<close>

theorem predict_accepts_nonfinite_beyond_20:
  "\<not> isFinite NaN \<and>
   NaN \<in> set (features \<lparr>cu_userId = ''a'', cu_partnerId = ''b'', features = replicate 20 (Fin 0) @ [NaN]\<rparr>) \<and>
   predict \<lparr>cu_userId = ''a'', cu_partnerId = ''b'', features = replicate 20 (Fin 0) @ [NaN]\<rparr> =
     Inr \<lparr>treatmentEffect = 0, confidence = calculateConfidence (replicate 20 0),
          modelVersion = MODEL_VERSION\<rparr>"
  by (simp add: predict_def extractFeatures_def FEATURE_COUNT_def slice_def validateFeatures_def
      validateFeatureValues_zeros predictTreatment_def predictControl_def predictionLoop_zeros clamp_def)

section \<open>Subspace resonance: symmetry and self-similarity\<close>

lemma cosineLoop_swap:
  "cosineLoop ys xs (d, m2, m1) = (case cosineLoop xs ys (d, m1, m2) of (a, b, c) \<Rightarrow> (a, c, b))"
proof (induction xs arbitrary: ys d m1 m2)
  case Nil
  then show ?case by (cases ys) simp_all
next
  case (Cons x xs)
  then show ?case by (cases ys) (simp_all add: mult.commute)
qed

lemma SR_cosineSimilarity_commute:
  assumes "length v1 = length v2"
  shows "SR_cosineSimilarity v1 v2 = SR_cosineSimilarity v2 v1"
proof -
  obtain a b c where l: "cosineLoop v1 v2 (0, 0, 0) = (a, b, c)"
    by (cases "cosineLoop v1 v2 (0, 0, 0)") auto
  then have r: "cosineLoop v2 v1 (0, 0, 0) = (a, c, b)"
    using cosineLoop_swap[of v2 v1 0 0 0] by simp
  show ?thesis
    using assms by (auto simp: SR_cosineSimilarity_def l r mult.commute)
qed

lemma length_extractSubspace:
  "length e1 = length e2 \<Longrightarrow> length (extractSubspace e1 s) = length (extractSubspace e2 s)"
  by (simp add: extractSubspace_def slice_def)

lemma weightedLoop_commute:
  "length e1 = length e2 \<Longrightarrow> weightedLoop ss e1 e2 acc = weightedLoop ss e2 e1 acc"
proof (induction ss arbitrary: acc)
  case Nil
  then show ?case by simp
next
  case (Cons s ss)
  have "SR_cosineSimilarity (extractSubspace e1 s) (extractSubspace e2 s) =
        SR_cosineSimilarity (extractSubspace e2 s) (extractSubspace e1 s)"
    using Cons.prems by (intro SR_cosineSimilarity_commute length_extractSubspace)
  with Cons show ?case by (simp split: sum.splits)
qed

lemma validateEmbeddings_ok:
  "length a = 768 \<Longrightarrow> length b = 768 \<Longrightarrow> list_all isFinite a \<Longrightarrow> list_all isFinite b \<Longrightarrow>
   validateEmbeddings a b = Inr ()"
  by (simp add: validateEmbeddings_def config_vectorSize_def isValidVector_def)

lemma sum_list_squares_nonneg: "0 \<le> (\<Sum>x\<leftarrow>v. x * x)" for v :: "real list"
  by (induction v) simp_all

lemma sum_list_squares_zero_iff: "(\<Sum>x\<leftarrow>v. x * x) = 0 \<longleftrightarrow> (\<forall>x \<in> set v. x = 0)" for v :: "real list"
proof (induction v)
  case Nil
  then show ?case by simp
next
  case (Cons y v)
  have "y * y + (\<Sum>x\<leftarrow>v. x * x) = 0 \<longleftrightarrow> y * y = 0 \<and> (\<Sum>x\<leftarrow>v. x * x) = 0"
    using sum_list_squares_nonneg[of v] by (intro add_nonneg_eq_0_iff) simp_all
  with Cons show ?case by simp
qed

lemma sum_list_zip_self: "(\<Sum>(x, y)\<leftarrow>zip v v. x * y) = (\<Sum>x\<leftarrow>v. x * x)" for v :: "real list"
  by (induction v) simp_all

lemma SR_cosineSimilarity_self:
  "SR_cosineSimilarity v v = Inr (if \<forall>x \<in> set v. x = 0 then 0 else 1)"
proof -
  let ?m = "\<Sum>x\<leftarrow>v. x * x"
  have loop: "cosineLoop v v (0, 0, 0) = (?m, ?m, ?m)"
    by (simp add: cosineLoop_sums sum_list_zip_self)
  have "?m / (sqrt ?m * sqrt ?m) = 1" if "?m \<noteq> 0"
    using that sum_list_squares_nonneg[of v] by simp
  then show ?thesis
    using sum_list_squares_zero_iff[of v] by (auto simp: SR_cosineSimilarity_def loop)
qed

lemma weightedLoop_self:
  "weightedLoop ss e e acc =
     Inr (acc + (\<Sum>s\<leftarrow>ss. weight s * (if \<forall>x \<in> set (extractSubspace e s). x = 0 then 0 else 1)))"
  by (induction ss arbitrary: acc) (simp_all add: SR_cosineSimilarity_self add.assoc)


text \<open>
  Claim C6 (amended). For all embeddings \<open>A\<close> and \<open>B\<close> of the configured width 768 with only
  finite entries, \<open>calculate(A, B)\<close> equals \<open>calculate(B, A)\<close>; and for every such \<open>A\<close>
  whose slice in each configured subspace has an entry of magnitude at least \<open>1e-100\<close> and
  no entry of magnitude above \<open>1e100\<close>, \<open>calculate(A, A)\<close> is approximately \<open>1.0\<close>: it
  differs from 1 by less than \<open>5e-7\<close>, the tolerance of the repository's test. (In the
  exact arithmetic of this model the value is 1; the bounds on the magnitudes keep the
  squares of the double computation from overflowing and the squared magnitudes from
  underflowing to zero.)
\<close>

theorem SR_calculate_symmetric_and_self:
  assumes "length A = 768" "length B = 768" "list_all isFinite A" "list_all isFinite B"
  shows "SR_calculate A B = SR_calculate B A \<and>
         ((\<forall>s \<in> set config_subspaces.
              (\<exists>x \<in> set (extractSubspace (map finVal A) s). 1 / 10 ^ 100 \<le> \<bar>x\<bar>) \<and>
              (\<forall>x \<in> set (extractSubspace (map finVal A) s). \<bar>x\<bar> \<le> 10 ^ 100)) \<longrightarrow>
          (\<exists>r. SR_calculate A A = Inr r \<and> \<bar>r - 1\<bar> < 5 / 10 ^ 7))"
proof (intro conjI impI)
  have "weightedLoop config_subspaces (map finVal A) (map finVal B) 0 =
        weightedLoop config_subspaces (map finVal B) (map finVal A) 0"
    using assms by (intro weightedLoop_commute) simp
  then show "SR_calculate A B = SR_calculate B A"
    using assms by (simp add: SR_calculate_def SR_calculateWith_def validateEmbeddings_ok)
next
  assume bounds: "\<forall>s \<in> set config_subspaces.
      (\<exists>x \<in> set (extractSubspace (map finVal A) s). 1 / 10 ^ 100 \<le> \<bar>x\<bar>) \<and>
      (\<forall>x \<in> set (extractSubspace (map finVal A) s). \<bar>x\<bar> \<le> 10 ^ 100)"
  have nz: "\<exists>x \<in> set (extractSubspace (map finVal A) s). x \<noteq> 0" if "s \<in> set config_subspaces" for s
  proof -
    from bounds that obtain x where x: "x \<in> set (extractSubspace (map finVal A) s)"
      "1 / 10 ^ 100 \<le> \<bar>x\<bar>" by blast
    have "(0::real) < 1 / 10 ^ 100" by simp
    with x(2) have "x \<noteq> 0" by auto
    with x(1) show ?thesis by blast
  qed
  have "weightedLoop config_subspaces (map finVal A) (map finVal A) 0 =
        Inr (0 + (\<Sum>s\<leftarrow>config_subspaces. weight s * 1))"
    unfolding weightedLoop_self
    using nz by (intro arg_cong[where f="\<lambda>x. Inr (0 + x)"] arg_cong[where f=sum_list] map_cong) auto
  also have "\<dots> = Inr 1" by (simp add: config_subspaces_def)
  finally have "SR_calculate A A = Inr 1"
    using assms by (simp add: SR_calculate_def SR_calculateWith_def validateEmbeddings_ok clamp_def)
  then show "\<exists>r. SR_calculate A A = Inr r \<and> \<bar>r - 1\<bar> < 5 / 10 ^ 7" by simp
qed

text \<open>An embedding of ones against the zero embedding, and an embedding filled with 0.3
  against itself.\<close>

theorem SR_calculate_witness:
  "SR_calculate onesEmbedding zeroEmbedding = SR_calculate zeroEmbedding onesEmbedding \<and>
   (\<exists>r. SR_calculate (replicate 768 (Fin (3 / 10))) (replicate 768 (Fin (3 / 10))) = Inr r \<and>
        \<bar>r - 1\<bar> < 5 / 10 ^ 7)"
proof -
  have ex: "\<exists>x::real. x * 10 = 3" by (rule exI[of _ "3 / 10"]) simp
  show ?thesis
    using SR_calculate_symmetric_and_self [of onesEmbedding zeroEmbedding]
      SR_calculate_symmetric_and_self [of "replicate 768 (Fin (3 / 10))" "replicate 768 (Fin (3 / 10))"]
      ex
    by (simp add: onesEmbedding_def zeroEmbedding_def list_all_iff config_subspaces_def
        extractSubspace_def slice_def)
qed

text \<open>
  Claim C6 as stated fails on its second half: the zero embedding has the configured width
  and only finite entries, and its resonance with itself is \<open>0\<close>, since a slice of zero
  magnitude has similarity \<open>0\<close>.
\<close>

theorem SR_calculate_zero_self:
  "length zeroEmbedding = config_vectorSize \<and> list_all isFinite zeroEmbedding \<and>
   SR_calculate zeroEmbedding zeroEmbedding = Inr 0"
  by (simp add: SR_calculate_def SR_calculateWith_def validateEmbeddings_def
      zeroEmbedding_def config_vectorSize_def isValidVector_def list_all_iff
      config_subspaces_def extractSubspace_def slice_def SR_cosineSimilarity_zero clamp_def)

section \<open>Safety constraints\<close>

lemma redFlagLoop_returned:
  "fst (redFlagLoop describe fs m fl) \<longleftrightarrow> (\<exists>f \<in> set fs. flagSeverity f \<ge> 1)"
  by (induction fs arbitrary: m fl) (auto simp: Let_def)

lemma redFlagLoop_max:
  "\<not> fst (redFlagLoop describe fs m fl) \<Longrightarrow>
   fst (snd (redFlagLoop describe fs m fl)) = fold max (map flagSeverity fs) m"
  by (induction fs arbitrary: m fl) (auto simp: Let_def max.commute split: if_splits)

lemma fold_max_append_commute:
  "fold max (xs @ ys) (m::real) = fold max (ys @ xs) m"
proof -
  have "fold max (xs @ ys) m = Max (set (m # xs @ ys))" by (rule Max.set_eq_fold[symmetric])
  also have "set (m # xs @ ys) = set (m # ys @ xs)" by auto
  also have "Max (set (m # ys @ xs)) = fold max (ys @ xs) m" by (rule Max.set_eq_fold)
  finally show ?thesis .
qed

lemma evaluateRedFlags_value:
  "fst (evaluateRedFlags u1 u2 fl) =
     (if \<exists>f \<in> set (redFlags u1) \<union> set (redFlags u2). flagSeverity f \<ge> 1 then 1
      else fold max (map flagSeverity (redFlags u1 @ redFlags u2)) 0)"
proof -
  obtain r1 m1 fl1 where l1: "redFlagLoop User1HasFlag (redFlags u1) 0 fl = (r1, m1, fl1)"
    by (cases "redFlagLoop User1HasFlag (redFlags u1) 0 fl") auto
  obtain r2 m2 fl2 where l2: "redFlagLoop User2HasFlag (redFlags u2) m1 fl1 = (r2, m2, fl2)"
    by (cases "redFlagLoop User2HasFlag (redFlags u2) m1 fl1") auto
  have r1: "r1 \<longleftrightarrow> (\<exists>f \<in> set (redFlags u1). flagSeverity f \<ge> 1)"
    using redFlagLoop_returned[of User1HasFlag "redFlags u1" 0 fl] l1 by simp
  have r2: "r2 \<longleftrightarrow> (\<exists>f \<in> set (redFlags u2). flagSeverity f \<ge> 1)"
    using redFlagLoop_returned[of User2HasFlag "redFlags u2" m1 fl1] l2 by simp
  have m1: "m1 = fold max (map flagSeverity (redFlags u1)) 0" if "\<not> r1"
    using redFlagLoop_max[of User1HasFlag "redFlags u1" 0 fl] l1 that by simp
  have m2: "m2 = fold max (map flagSeverity (redFlags u2)) m1" if "\<not> r2"
    using redFlagLoop_max[of User2HasFlag "redFlags u2" m1 fl1] l2 that by simp
  show ?thesis
  proof (cases r1)
    case True
    then show ?thesis using r1 by (auto simp: evaluateRedFlags_def l1)
  next
    case n1: False
    show ?thesis
    proof (cases r2)
      case True
      then show ?thesis using n1 r2 by (auto simp: evaluateRedFlags_def l1 l2)
    next
      case False
      have "fst (evaluateRedFlags u1 u2 fl) = m2"
        using n1 False by (simp add: evaluateRedFlags_def l1 l2)
      also have "m2 = fold max (map flagSeverity (redFlags u1 @ redFlags u2)) 0"
        using m1[OF n1] m2[OF False] by simp
      finally show ?thesis using n1 False r1 r2 by auto
    qed
  qed
qed

lemma evaluateRedFlags_commute:
  "fst (evaluateRedFlags u1 u2 fl) = fst (evaluateRedFlags u2 u1 fl')"
  unfolding evaluateRedFlags_value
  using fold_max_append_commute[of "map flagSeverity (redFlags u1)" "map flagSeverity (redFlags u2)" 0]
  by (auto simp: Un_commute)

lemma haversineDistance_commute:
  "haversineDistance lat1 lon1 lat2 lon2 = haversineDistance lat2 lon2 lat1 lon1"
proof -
  have s: "sin (toRadians (x - y) / 2) * sin (toRadians (x - y) / 2) =
           sin (toRadians (y - x) / 2) * sin (toRadians (y - x) / 2)" for x y
  proof -
    have "toRadians (x - y) / 2 = - (toRadians (y - x) / 2)"
      by (simp add: toRadians_def field_simps)
    then show ?thesis by (simp only: sin_minus)
  qed
  have t: "cos (toRadians lat1) * cos (toRadians lat2) * sin (toRadians (lon2 - lon1) / 2) * sin (toRadians (lon2 - lon1) / 2) =
        cos (toRadians lat2) * cos (toRadians lat1) * sin (toRadians (lon1 - lon2) / 2) * sin (toRadians (lon1 - lon2) / 2)"
    using s[of lon2 lon1] by (simp add: mult.assoc mult.left_commute mult.commute)
  show ?thesis
    unfolding haversineDistance_def Let_def s[of lat2 lat1] t ..
qed

lemma calculateDistancePenalty_commute:
  "fst (calculateDistancePenalty u1 u2 fl) = fst (calculateDistancePenalty u2 u1 fl')"
  unfolding calculateDistancePenalty_def Let_def
    haversineDistance_commute[of "latitude (location u1)" "longitude (location u1)"]
  by (simp add: min.commute)

lemma calculateAgeGapPenalty_commute:
  "fst (calculateAgeGapPenalty u1 u2 fl) = fst (calculateAgeGapPenalty u2 u1 fl')"
  unfolding calculateAgeGapPenalty_def Let_def abs_minus_commute[of "age u1" "age u2"]
  by auto

lemma SC_calculateDetailed_fields:
  "sc_score (SC_calculateDetailed u1 u2) =
     clamp (RED_FLAG_WEIGHT * fst (evaluateRedFlags u1 u2 []) +
            DISTANCE_WEIGHT * distancePenalty (SC_calculateDetailed u1 u2) +
            AGE_GAP_WEIGHT * agePenalty (SC_calculateDetailed u1 u2)) 0 1"
  "distancePenalty (SC_calculateDetailed u1 u2) =
     fst (calculateDistancePenalty u1 u2 (snd (evaluateRedFlags u1 u2 [])))"
  "agePenalty (SC_calculateDetailed u1 u2) =
     fst (calculateAgeGapPenalty u1 u2
            (snd (calculateDistancePenalty u1 u2 (snd (evaluateRedFlags u1 u2 [])))))"
  by (simp_all add: SC_calculateDetailed_def Let_def split: prod.splits)

text \<open>
  Claim C10. The safety-constraints score is symmetric in the two users: the red-flag
  penalty, the distance penalty and the age-gap penalty are each symmetric.
\<close>

theorem SC_calculate_symmetric: "SC_calculate u1 u2 = SC_calculate u2 u1"
proof -
  have r: "fst (evaluateRedFlags u1 u2 []) = fst (evaluateRedFlags u2 u1 [])"
    by (rule evaluateRedFlags_commute)
  have d: "distancePenalty (SC_calculateDetailed u1 u2) = distancePenalty (SC_calculateDetailed u2 u1)"
    unfolding SC_calculateDetailed_fields(2) by (rule calculateDistancePenalty_commute)
  have a: "agePenalty (SC_calculateDetailed u1 u2) = agePenalty (SC_calculateDetailed u2 u1)"
    unfolding SC_calculateDetailed_fields(3) by (rule calculateAgeGapPenalty_commute)
  show ?thesis
    unfolding SC_calculate_def SC_calculateDetailed_fields(1) r d a ..
qed

lemma flagSeverity_values:
  "flagSeverity ''harassment_history'' = 1"
  "flagSeverity ''spam_behavior'' = 6 / 10"
  by (simp_all add: flagSeverity_def RED_FLAG_SEVERITY_def)

lemma redFlags_mockUser: "redFlags (mockUser a fl) = fl"
  by (simp add: mockUser_def)

lemma mockUser_distance:
  "calculateDistancePenalty (mockUser a fa) (mockUser b fb) fl = (0, fl)"
  by (simp add: calculateDistancePenalty_def mockUser_def haversineDistance_same MAX_SAFE_DISTANCE_def)

lemma SC_calculateDetailed_mock:
  "distancePenalty (SC_calculateDetailed (mockUser a fa) (mockUser b fb)) = 0"
  "\<bar>a - b\<bar> \<le> 15 \<Longrightarrow> agePenalty (SC_calculateDetailed (mockUser a fa) (mockUser b fb)) = \<bar>a - b\<bar> / 15"
  by (simp_all add: SC_calculateDetailed_fields mockUser_distance)
     (simp add: calculateAgeGapPenalty_def mockUser_def unsetOr_def MAX_SAFE_AGE_GAP_def)

lemma SC_calculate_spam_example:
  "SC_calculate (mockUser 30 [''spam_behavior'']) (mockUser 40 []) = 46 / 100"
  by (simp add: SC_calculate_def SC_calculateDetailed_fields(1) SC_calculateDetailed_mock
      evaluateRedFlags_value flagSeverity_values redFlags_mockUser clamp_def
      RED_FLAG_WEIGHT_def DISTANCE_WEIGHT_def AGE_GAP_WEIGHT_def)

text \<open>A pair ten years apart at the same place, one user flagged for spam: the score is
  \<open>0.6 * 0.6 + 0.15 * (10 / 15) = 0.46\<close> in both orders.\<close>

theorem SC_calculate_symmetric_witness:
  "SC_calculate (mockUser 30 [''spam_behavior'']) (mockUser 40 []) = 46 / 100 \<and>
   SC_calculate (mockUser 40 []) (mockUser 30 [''spam_behavior'']) = 46 / 100"
  using SC_calculate_symmetric [of "mockUser 30 [''spam_behavior'']" "mockUser 40 []"]
  by (simp add: SC_calculate_spam_example)

text \<open>
  Claim C3 (amended). When a user of the pair carries a red flag of severity 1.0, the
  red-flag evaluation returns the maximum red-flag penalty 1.0, and the returned score is
  \<open>clamp(0.6 * 1.0 + 0.25 * distancePenalty + 0.15 * agePenalty, 0, 1)\<close>: the critical
  flag contributes its full weight 0.6, and the distance and age-gap penalties still count.
\<close>

theorem critical_flag_gives_full_red_flag_penalty:
  assumes "\<exists>f \<in> set (redFlags u1) \<union> set (redFlags u2). flagSeverity f = 1"
  shows "fst (evaluateRedFlags u1 u2 []) = 1 \<and>
         sc_score (SC_calculateDetailed u1 u2) =
           clamp (6 / 10 + 25 / 100 * distancePenalty (SC_calculateDetailed u1 u2) +
                  15 / 100 * agePenalty (SC_calculateDetailed u1 u2)) 0 1"
proof -
  from assms have "\<exists>f \<in> set (redFlags u1) \<union> set (redFlags u2). flagSeverity f \<ge> 1"
    by force
  then have r: "fst (evaluateRedFlags u1 u2 []) = 1"
    by (simp add: evaluateRedFlags_value)
  show ?thesis
    by (simp add: r SC_calculateDetailed_fields(1) RED_FLAG_WEIGHT_def DISTANCE_WEIGHT_def AGE_GAP_WEIGHT_def)
qed

text \<open>A user with a harassment history, paired with a user fifteen years older at the same
  place: the score is \<open>0.6 + 0.15 = 0.75\<close>.\<close>

theorem critical_flag_witness:
  "fst (evaluateRedFlags (mockUser 30 [''harassment_history'']) (mockUser 45 []) []) = 1 \<and>
   sc_score (SC_calculateDetailed (mockUser 30 [''harassment_history'']) (mockUser 45 [])) = 75 / 100"
  using critical_flag_gives_full_red_flag_penalty
          [of "mockUser 30 [''harassment_history'']" "mockUser 45 []"]
  by (simp add: SC_calculateDetailed_mock flagSeverity_values redFlags_mockUser clamp_def)

text \<open>
  Claim C3 as stated fails: with a critical flag the score is not the maximum penalty 1.0
  and it varies with the age gap (0.6 for equal ages, 0.75 for a gap of fifteen years).
\<close>

theorem critical_flag_score_below_maximum:
  "flagSeverity ''harassment_history'' = 1 \<and>
   SC_calculate (mockUser 30 [''harassment_history'']) (mockUser 30 []) = 6 / 10 \<and>
   SC_calculate (mockUser 30 [''harassment_history'']) (mockUser 45 []) = 75 / 100"
  by (simp add: SC_calculate_def SC_calculateDetailed_fields(1) SC_calculateDetailed_mock
      evaluateRedFlags_value flagSeverity_values redFlags_mockUser clamp_def
      RED_FLAG_WEIGHT_def DISTANCE_WEIGHT_def AGE_GAP_WEIGHT_def)

section \<open>Information gain\<close>

lemma calculateSingle_oneTrait:
  "calculateSingle oneTraitProfile =
     \<lparr>score = 424 / 1000, coverage = 1 / 25, avgConfidence = 1, entropyReduction = 0\<rparr>"
  by (simp add: calculateSingle_def oneTraitProfile_def emptyProfile_def calculateEntropyReduction_def
      clamp_def MIN_TRAITS_PER_DIMENSION_def TOTAL_EXPECTED_TRAITS_def)

lemma calculateSingle_twoTraits:
  "calculateSingle (oneTraitProfile
      \<lparr>p_values := p_values oneTraitProfile @
          [(''new_trait'', \<lparr>dimension = DValues, trait = ''new_trait'', traitValue = 1 / 2,
                            traitConfidence = 1 / 2, source = Inferred\<rparr>)]\<rparr>) =
     \<lparr>score = 348 / 1000, coverage = 2 / 25, avgConfidence = 3 / 4, entropyReduction = 0\<rparr>"
  by (simp add: calculateSingle_def oneTraitProfile_def emptyProfile_def calculateEntropyReduction_def
      clamp_def MIN_TRAITS_PER_DIMENSION_def TOTAL_EXPECTED_TRAITS_def)

text \<open>
  Claim C2 fails on the code. A profile whose only trait has confidence 1.0 scores 0.424;
  with a second trait of confidence 0.5 added to the same dimension it scores 0.348, and
  the service's own \<open>validateMonotonicity\<close> answers \<open>false\<close> for it.
\<close>

theorem adding_trait_decreases_score:
  "\<not> mapHas (p_values oneTraitProfile) ''new_trait'' \<and>
   score (calculateSingle oneTraitProfile) = 424 / 1000 \<and>
   score (calculateSingle (oneTraitProfile
      \<lparr>p_values := p_values oneTraitProfile @
          [(''new_trait'', \<lparr>dimension = DValues, trait = ''new_trait'', traitValue = 1 / 2,
                            traitConfidence = 1 / 2, source = Inferred\<rparr>)]\<rparr>)) = 348 / 1000 \<and>
   validateMonotonicity oneTraitProfile DValues ''new_trait'' = (False, oneTraitProfile)"
proof -
  have vals: "p_values oneTraitProfile =
      [(''honesty'', \<lparr>dimension = DValues, trait = ''honesty'', traitValue = 1,
                       traitConfidence = 1, source = Conversation\<rparr>)]"
    by (simp add: oneTraitProfile_def emptyProfile_def)
  have absent: "\<not> mapHas (p_values oneTraitProfile) ''new_trait''"
    by (simp add: vals mapHas_def)
  have set1: "mapSet (p_values oneTraitProfile) ''new_trait'' t = p_values oneTraitProfile @ [(''new_trait'', t)]" for t
    by (simp add: vals)
  have removed: "mapDelete (p_values oneTraitProfile @ [(''new_trait'', t)]) ''new_trait'' = p_values oneTraitProfile" for t
    by (simp add: vals mapDelete_def)
  have restored: "oneTraitProfile\<lparr>p_values := p_values oneTraitProfile\<rparr> = oneTraitProfile"
    by simp
  show ?thesis
    using absent
    by (simp add: validateMonotonicity_def getDimension_def setDimension_def Let_def set1 removed restored
        calculateSingle_oneTrait calculateSingle_twoTraits)
qed

section \<open>The RBS orchestrator: the formula\<close>

lemma calculateSR_example: "calculateSR exampleInput = Inr 1"
  by (simp add: calculateSR_def SR_calculate_def SR_calculateWith_def validateEmbeddings_ok
      weightedLoop_self exampleInput_def onesEmbedding_def list_all_iff
      config_subspaces_def extractSubspace_def slice_def clamp_def)

lemma calculateCU_example: "calculateCU exampleInput = Inr 0"
  by (simp add: calculateCU_def exampleInput_def CU_calculate_def predict_no_features)

lemma calculateIG_example: "calculateIG exampleInput = 424 / 1000"
  by (simp add: calculateIG_def IG_calculate_def exampleInput_def calculateSingle_oneTrait)

lemma calculateSC_example: "calculateSC exampleInput = 46 / 100"
  by (simp add: calculateSC_def exampleInput_def SC_calculate_spam_example)

text \<open>With finite weights the total is the clamped real combination.\<close>

lemma applyFormula_finite:
  "applyFormula \<lparr>alpha = Fin a, beta = Fin b, gamma = Fin c, delta = Fin d\<rparr> sr cu ig sc =
     \<lparr>rbs_total = Fin (clamp (a * sr + b * cu + c * ig - d * sc) 0 1),
      rbs_sr = sr, rbs_cu = cu, rbs_ig = ig, rbs_sc = sc\<rparr>"
  by (simp add: applyFormula_def num_clamp_def num_sub_def clamp_def min_def max_def)

text \<open>
  Claim C1 (amended). Whenever the subspace resonance and the causal uplift of a pair input
  evaluate (the information gain and the safety penalty always do), \<open>calculate\<close> returns
  the four component values and \<open>total = clamp(alpha*SR + beta*CU + gamma*IG - delta*SC, 0, 1)\<close>
  for the service's weights, computed in double arithmetic; for finite weights that is the
  clamped real combination. With weights \<open>{0.45, 0.30, 0.25, 0.15}\<close> and components
  \<open>{sr: 0.90, cu: 0.75, ig: 0.80, sc: 0.10}\<close> the total is \<open>0.815\<close>.
\<close>

theorem RBS_calculate_applies_formula:
  "(calculateSR input = Inr sr \<and> calculateCU input = Inr cu \<longrightarrow>
      RBS_calculate service input =
        Inr \<lparr>rbs_total =
               num_clamp
                 (num_sub
                    (num_add
                       (num_add (num_mul (alpha (weights service)) (Fin sr))
                                (num_mul (beta (weights service)) (Fin cu)))
                       (num_mul (gamma (weights service)) (Fin (calculateIG input))))
                    (num_mul (delta (weights service)) (Fin (calculateSC input))))
                 (Fin 0) (Fin 1),
             rbs_sr = sr, rbs_cu = cu, rbs_ig = calculateIG input, rbs_sc = calculateSC input\<rparr>) \<and>
   (weights service = \<lparr>alpha = Fin a, beta = Fin b, gamma = Fin c, delta = Fin d\<rparr> \<and>
    calculateSR input = Inr sr \<and> calculateCU input = Inr cu \<longrightarrow>
      RBS_calculate service input =
        Inr \<lparr>rbs_total = Fin (clamp (a * sr + b * cu + c * calculateIG input -
                                      d * calculateSC input) 0 1),
             rbs_sr = sr, rbs_cu = cu, rbs_ig = calculateIG input, rbs_sc = calculateSC input\<rparr>) \<and>
   rbs_total (applyFormula \<lparr>alpha = Fin (45 / 100), beta = Fin (30 / 100), gamma = Fin (25 / 100),
                             delta = Fin (15 / 100)\<rparr>
                (90 / 100) (75 / 100) (80 / 100) (10 / 100)) = Fin (815 / 1000)"
proof (intro conjI impI)
  assume "calculateSR input = Inr sr \<and> calculateCU input = Inr cu"
  then show "RBS_calculate service input =
        Inr \<lparr>rbs_total =
               num_clamp
                 (num_sub
                    (num_add
                       (num_add (num_mul (alpha (weights service)) (Fin sr))
                                (num_mul (beta (weights service)) (Fin cu)))
                       (num_mul (gamma (weights service)) (Fin (calculateIG input))))
                    (num_mul (delta (weights service)) (Fin (calculateSC input))))
                 (Fin 0) (Fin 1),
             rbs_sr = sr, rbs_cu = cu, rbs_ig = calculateIG input, rbs_sc = calculateSC input\<rparr>"
    by (simp add: RBS_calculate_def applyFormula_def)
next
  assume "weights service = \<lparr>alpha = Fin a, beta = Fin b, gamma = Fin c, delta = Fin d\<rparr> \<and>
    calculateSR input = Inr sr \<and> calculateCU input = Inr cu"
  then show "RBS_calculate service input =
        Inr \<lparr>rbs_total = Fin (clamp (a * sr + b * cu + c * calculateIG input -
                                      d * calculateSC input) 0 1),
             rbs_sr = sr, rbs_cu = cu, rbs_ig = calculateIG input, rbs_sc = calculateSC input\<rparr>"
    by (simp add: RBS_calculate_def applyFormula_finite)
next
  show "rbs_total (applyFormula \<lparr>alpha = Fin (45 / 100), beta = Fin (30 / 100), gamma = Fin (25 / 100),
                             delta = Fin (15 / 100)\<rparr>
                (90 / 100) (75 / 100) (80 / 100) (10 / 100)) = Fin (815 / 1000)"
    by (simp add: applyFormula_finite clamp_def)
qed

text \<open>
  Claim C1 as stated gives \<open>0.7975\<close> for that scenario; the formula gives
  \<open>0.405 + 0.225 + 0.2 - 0.015 = 0.815\<close>.
\<close>

theorem RBS_scenario_total_is_not_0_7975:
  "rbs_total (applyFormula \<lparr>alpha = Fin (45 / 100), beta = Fin (30 / 100), gamma = Fin (25 / 100),
                             delta = Fin (15 / 100)\<rparr>
                (90 / 100) (75 / 100) (80 / 100) (10 / 100)) \<noteq> Fin (7975 / 10000)"
  by (simp add: applyFormula_finite clamp_def)

text \<open>
  The formula on the example input, with the default weights: identical embeddings of ones
  (SR 1), no features (CU 0), one-trait profiles (IG 0.424), a spam flag and ten years of
  age gap (SC 0.46); the total is \<open>0.45 + 0.25 * 0.424 - 0.15 * 0.46 = 0.487\<close>.
\<close>

theorem RBS_calculate_applies_formula_witness:
  "calculateSR exampleInput = Inr 1 \<and> calculateCU exampleInput = Inr 0 \<and>
   RBS_calculate \<lparr>weights = config_default_weights\<rparr> exampleInput =
     Inr \<lparr>rbs_total = Fin (487 / 1000), rbs_sr = 1, rbs_cu = 0, rbs_ig = 424 / 1000,
          rbs_sc = 46 / 100\<rparr>"
  using RBS_calculate_applies_formula
          [of exampleInput 1 0 "\<lparr>weights = config_default_weights\<rparr>" "45 / 100" "30 / 100" "25 / 100" "15 / 100"]
  by (simp add: calculateSR_example calculateCU_example calculateIG_example calculateSC_example
      config_default_weights_def clamp_def num_clamp_def num_sub_def)

section \<open>The RBS orchestrator: construction\<close>

lemma validateSubspaces_config: "validateSubspaces config_subspaces = Inr ()"
  by (simp add: validateSubspaces_def config_subspaces_def config_vectorSize_def)

lemma newRBSService_default:
  "newRBSService config_default_weights = Inr \<lparr>weights = config_default_weights\<rparr>"
  by (simp add: newRBSService_def validateSubspaces_config validateWeights_def
      config_default_weights_def num_sub_def num_gt_def)

text \<open>
  Claim C8 fails on the code. With \<^verbatim>\<open>RBS_ALPHA\<close> set to a text that is not a number, the
  weight \<open>alpha\<close> is \<^verbatim>\<open>NaN\<close>: not strictly positive, and the sum of the three weights not
  within 0.01 of 1. Every comparison of \<open>validateWeights\<close> is false on \<^verbatim>\<open>NaN\<close>, so the
  constructor succeeds, and the service then returns \<^verbatim>\<open>NaN\<close> as the total of every pair.
\<close>

theorem constructor_accepts_NaN_weight:
  "alpha nanAlphaWeights = NaN \<and>
   \<not> num_gt (alpha nanAlphaWeights) (Fin 0) \<and>
   \<not> num_le (num_abs (num_sub (num_add (num_add (alpha nanAlphaWeights) (beta nanAlphaWeights))
                                   (gamma nanAlphaWeights)) (Fin 1))) (Fin (1 / 100)) \<and>
   newRBSService nanAlphaWeights = Inr \<lparr>weights = nanAlphaWeights\<rparr> \<and>
   RBS_calculate \<lparr>weights = nanAlphaWeights\<rparr> exampleInput =
     Inr \<lparr>rbs_total = NaN, rbs_sr = 1, rbs_cu = 0, rbs_ig = 424 / 1000, rbs_sc = 46 / 100\<rparr>"
  by (simp add: nanAlphaWeights_def newRBSService_def validateSubspaces_config validateWeights_def
      num_sub_def num_gt_def RBS_calculate_def applyFormula_def num_clamp_def
      calculateSR_example calculateCU_example calculateIG_example calculateSC_example)

section \<open>Match discovery\<close>

lemma findByUserPair_None_iff:
  "findByUserPair store uid mid = None \<longleftrightarrow>
     \<not> (\<exists>r \<in> set store. m_userId r = uid \<and> m_matchedUserId r = mid)"
  by (auto simp add: findByUserPair_def find_None_iff)

text \<open>One iteration of the loop: a candidate with a Match row, or without a user record, is
  skipped; at any other candidate the scoring call throws and the loop is left.\<close>

lemma discoverLoop_skip_row:
  assumes "\<exists>r \<in> set store. m_userId r = uid \<and> m_matchedUserId r = sr_id c"
  shows "discoverLoop env svc uid limit (c # rest) store acc =
         discoverLoop env svc uid limit rest store acc"
proof -
  from assms have "findByUserPair store uid (sr_id c) \<noteq> None"
    by (simp add: findByUserPair_None_iff)
  then obtain r where "findByUserPair store uid (sr_id c) = Some r" by auto
  then show ?thesis by simp
qed

lemma discoverLoop_skip_no_user:
  assumes "findById env (sr_id c) = None"
  shows "discoverLoop env svc uid limit (c # rest) store acc =
         discoverLoop env svc uid limit rest store acc"
  using assms by (cases "findByUserPair store uid (sr_id c)") simp_all

lemma discoverLoop_throws:
  assumes "\<not> (\<exists>r \<in> set store. m_userId r = uid \<and> m_matchedUserId r = sr_id c)"
    and "findById env (sr_id c) = Some cu"
  shows "discoverLoop env svc uid limit (c # rest) store acc =
         (store, Inl (TypeError ''rbsService.calculateScore is not a function''))"
proof -
  from assms(1) have "findByUserPair store uid (sr_id c) = None"
    by (simp add: findByUserPair_None_iff)
  with assms(2) show ?thesis by (simp add: RBS_calculateScore_def)
qed

declare discoverLoop.simps(2) [simp del]

text \<open>The whole loop: it returns the matches collected so far when every candidate is
  skipped, and the \<^verbatim>\<open>TypeError\<close> otherwise; the store is never changed.\<close>

lemma discoverLoop_closed:
  "discoverLoop env svc uid limit cs store acc =
     (if \<forall>c \<in> set cs. (\<exists>r \<in> set store. m_userId r = uid \<and> m_matchedUserId r = sr_id c) \<or>
                       findById env (sr_id c) = None
      then (store, Inr acc)
      else (store, Inl (TypeError ''rbsService.calculateScore is not a function'')))"
proof (induction cs)
  case Nil
  show ?case by simp
next
  case (Cons c cs)
  show ?case
  proof (cases "\<exists>r \<in> set store. m_userId r = uid \<and> m_matchedUserId r = sr_id c")
    case True
    then show ?thesis using Cons.IH by (simp add: discoverLoop_skip_row)
  next
    case noRow: False
    show ?thesis
    proof (cases "findById env (sr_id c)")
      case None
      then show ?thesis using Cons.IH by (simp add: discoverLoop_skip_no_user)
    next
      case (Some cu)
      with noRow show ?thesis by (simp add: discoverLoop_throws)
    qed
  qed
qed


text \<open>The handler, once it has reached the loop.\<close>

lemma GET_loop:
  assumes "validatePagination page limit = Inr pl" "getVector env uid = Some uv"
    "searchSimilar env (vector uv) 100 = Inr sims" "sims \<noteq> []"
    "newRBSService (configWeights env) = Inr svc" "findById env uid = Some cur"
  shows "GET env (Some uid) page limit store =
     (store,
      if \<forall>c \<in> set (slice sims 0 50).
            (\<exists>r \<in> set store. m_userId r = uid \<and> m_matchedUserId r = sr_id c) \<or>
            findById env (sr_id c) = None
      then Matches []
      else ApiError (TypeError ''rbsService.calculateScore is not a function''))"
  using assms by (simp add: GET_def discoverLoop_closed sortByScore_def)

text \<open>No request changes the Match table, and the only list of matches ever returned is
  the empty one.\<close>

lemma GET_store: "fst (GET env auth page limit store) = store"
  by (simp add: GET_def discoverLoop_closed split: option.splits sum.splits)


lemma sortByScore_descending: "sorted_wrt (\<lambda>a b. sm_rbsScore a \<ge> sm_rbsScore b) (sortByScore ms)"
proof -
  have "sorted (map (\<lambda>m. - sm_rbsScore m) (sortByScore ms))"
    unfolding sortByScore_def by (rule sorted_sort_key)
  then show ?thesis by (simp add: sorted_map)
qed

subsection \<open>The example environment\<close>

lemma exampleEnv_simps:
  "getVector (exampleEnv users) i = Some \<lparr>vp_id = i, vector = onesEmbedding\<rparr>"
  "searchSimilar (exampleEnv users) onesEmbedding k =
     Inr [\<lparr>sr_id = ''c1'', sr_score = 95 / 100\<rparr>, \<lparr>sr_id = ''c2'', sr_score = 90 / 100\<rparr>]"
  "findById (exampleEnv users) = users"
  "newRBSService (configWeights (exampleEnv users)) = Inr \<lparr>weights = config_default_weights\<rparr>"
  by (simp_all add: exampleEnv_def searchSimilar_def onesEmbedding_def newRBSService_default)

lemma GET_example:
  "validatePagination page limit = Inr pl \<Longrightarrow> users ''u'' = Some cur \<Longrightarrow>
   GET (exampleEnv users) (Some ''u'') page limit store =
     (store,
      if ((\<exists>r \<in> set store. m_userId r = ''u'' \<and> m_matchedUserId r = ''c1'') \<or> users ''c1'' = None) \<and>
         ((\<exists>r \<in> set store. m_userId r = ''u'' \<and> m_matchedUserId r = ''c2'') \<or> users ''c2'' = None)
      then Matches []
      else ApiError (TypeError ''rbsService.calculateScore is not a function''))"
  using GET_loop[where env = "exampleEnv users" and uid = "''u''" and page = page and limit = limit
      and pl = pl and store = store and cur = cur,
      OF _ exampleEnv_simps(1)]
  by (simp add: exampleEnv_simps slice_def)

lemma GET_example_all_skipped:
  "GET (exampleEnv usersWithoutC2) (Some ''u'') (Fin 1) (Fin 1) [exampleRow ''c1''] =
     ([exampleRow ''c1''], Matches [])"
  by (simp add: GET_example[where pl = "(Fin 1, Fin 1)" and cur = "exampleUser ''u''"]
      validatePagination_def num_gt_def usersWithoutC2_def exampleRow_def)


lemma GET_example_throws_at_c1:
  "GET (exampleEnv usersWithoutC2) (Some ''u'') (Fin 1) (Fin 10) [] =
     ([], ApiError (TypeError ''rbsService.calculateScore is not a function''))"
  by (simp add: GET_example[where pl = "(Fin 1, Fin 10)" and cur = "exampleUser ''u''"]
      validatePagination_def num_gt_def usersWithoutC2_def)

subsection \<open>What a discovery request persists and returns\<close>



subsection \<open>Running discovery twice\<close>

text \<open>
  Claim C4. Two discovery requests in succession, for the same user, parameters and
  candidates: the Match table after the second request is the table after the first (which
  is the table before it), so its size is unchanged, no row is created and every ordered
  pair has as many rows as before; in the second run every candidate for which the table
  holds a row of the user is passed over by the loop; and the second response is the
  first.
\<close>

theorem rediscovery_never_duplicates:
  assumes "GET env auth page limit store = (store1, resp1)"
    and "GET env auth page limit store1 = (store2, resp2)"
  shows "store2 = store1 \<and> store1 = store \<and> length store2 = length store1 \<and>
     (\<forall>u m. length (filter (\<lambda>r. m_userId r = u \<and> m_matchedUserId r = m) store2) =
            length (filter (\<lambda>r. m_userId r = u \<and> m_matchedUserId r = m) store1)) \<and>
     (\<forall>svc uid c rest acc.
        (\<exists>r \<in> set store1. m_userId r = uid \<and> m_matchedUserId r = sr_id c) \<longrightarrow>
        discoverLoop env svc uid limit (c # rest) store1 acc =
        discoverLoop env svc uid limit rest store1 acc) \<and>
     resp2 = resp1"
proof -
  have s1: "store1 = store" using GET_store[of env auth page limit store] assms(1) by simp
  have s2: "store2 = store1" using GET_store[of env auth page limit store1] assms(2) by simp
  from assms s1 have "resp2 = resp1" by simp
  with s1 s2 show ?thesis by (auto simp add: discoverLoop_skip_row)
qed

text \<open>The table holds a row of user \<open>u\<close> for \<open>c1\<close>, and \<open>c2\<close> has no user record: both runs
  pass over both candidates and leave the one row.\<close>

theorem rediscovery_witness:
  "GET (exampleEnv usersWithoutC2) (Some ''u'') (Fin 1) (Fin 1) [exampleRow ''c1''] =
     ([exampleRow ''c1''], Matches []) \<and>
   length [exampleRow ''c1''] = 1 \<and>
   discoverLoop (exampleEnv usersWithoutC2) \<lparr>weights = config_default_weights\<rparr> ''u'' (Fin 1)
       [\<lparr>sr_id = ''c1'', sr_score = 95 / 100\<rparr>, \<lparr>sr_id = ''c2'', sr_score = 90 / 100\<rparr>]
       [exampleRow ''c1''] [] =
     discoverLoop (exampleEnv usersWithoutC2) \<lparr>weights = config_default_weights\<rparr> ''u'' (Fin 1)
       [\<lparr>sr_id = ''c2'', sr_score = 90 / 100\<rparr>] [exampleRow ''c1''] []"
proof -
  note runs = rediscovery_never_duplicates[OF GET_example_all_skipped GET_example_all_skipped]
  have row: "\<exists>r \<in> set [exampleRow ''c1''].
      m_userId r = ''u'' \<and> m_matchedUserId r = sr_id \<lparr>sr_id = ''c1'', sr_score = 95 / 100\<rparr>"
    by (simp add: exampleRow_def)
  from runs row have "discoverLoop (exampleEnv usersWithoutC2) \<lparr>weights = config_default_weights\<rparr> ''u'' (Fin 1)
       [\<lparr>sr_id = ''c1'', sr_score = 95 / 100\<rparr>, \<lparr>sr_id = ''c2'', sr_score = 90 / 100\<rparr>]
       [exampleRow ''c1''] [] =
     discoverLoop (exampleEnv usersWithoutC2) \<lparr>weights = config_default_weights\<rparr> ''u'' (Fin 1)
       [\<lparr>sr_id = ''c2'', sr_score = 90 / 100\<rparr>] [exampleRow ''c1''] []"
    by blast
  then show ?thesis by (simp add: GET_example_all_skipped)
qed

subsection \<open>A failure while scoring\<close>




end
